theory Spec2Isabelle
  imports Main "HOL-Library.Sublist" "HOL-Library.Char_ord" "HOL-Library.List_Lexorder"
begin

section \<open>Strings\<close>

text \<open>
  A Python \<^verbatim>\<open>str\<close> is modelled as a \<^typ>\<open>string\<close>: a list of characters, each one a
  code point below 256. None of the characters the program looks at (quotes, \<^verbatim>\<open>/\<close>,
  \<^verbatim>\<open>?\<close>, \<^verbatim>\<open>#\<close>, tab, the line breaks) lies outside that range.
\<close>

definition dq :: char where
  \<open>dq = CHR ''"''\<close>

definition sq :: char where
  \<open>sq = CHR 0x27\<close>

text \<open>\<^verbatim>\<open>s.startswith(p)\<close>\<close>

definition startswith :: "string \<Rightarrow> string \<Rightarrow> bool" where
  "startswith s p = prefix p s"

text \<open>\<^verbatim>\<open>sub in s\<close>\<close>

fun contains :: "string \<Rightarrow> string \<Rightarrow> bool" where
  "contains sub [] = (sub = [])"
| "contains sub (c # t) = (prefix sub (c # t) \<or> contains sub t)"

text \<open>\<^verbatim>\<open>s.split(sep)\<close> with a one-character separator: never the empty list.\<close>

fun split_on :: "char \<Rightarrow> string \<Rightarrow> string list" where
  "split_on sep [] = [[]]"
| "split_on sep (c # t) =
     (if c = sep then [] # split_on sep t
      else (case split_on sep t of
              [] \<Rightarrow> [[c]]
            | p # ps \<Rightarrow> (c # p) # ps))"

section \<open>The manifest pattern\<close>

text \<open>
  The pattern of \<^verbatim>\<open>discover_manifest_urls\<close> is
  \<^verbatim>\<open>(https?://[^"]+?\.(?:m3u8|mpd)(?:\?[^\"']*)?)\<close>.
  It is matched the way Python's backtracking engine does: the scheme, then the shortest
  non-empty run of characters other than the double quote that is followed by one of the
  two extensions, then, greedily, a query string up to the next quote.

  In the source the pattern stands in a raw string literal delimited by double quotes,
  and the double quote of the first character class has no backslash before it, so that
  the literal ends there and Python does not accept the two lines as they are. The model
  takes the regular expression that the lines spell, which is the one the specification
  describes.
\<close>

text \<open>\<^verbatim>\<open>https?://\<close>: the number of characters matched.\<close>

definition scheme_len :: "string \<Rightarrow> nat option" where
  "scheme_len t =
     (if prefix ''https://'' t then Some 8
      else if prefix ''http://'' t then Some 7
      else None)"

text \<open>\<^verbatim>\<open>\.(?:m3u8|mpd)\<close>: the number of characters matched.\<close>

definition ext_len :: "string \<Rightarrow> nat option" where
  "ext_len t =
     (if prefix ''.m3u8'' t then Some 5
      else if prefix ''.mpd'' t then Some 4
      else None)"

text \<open>
  \<^verbatim>\<open>[^"]+?\.(?:m3u8|mpd)\<close>: the lazy run takes one character, tries the extension,
  and takes one more character when the extension is not there. The result is the text
  matched and the text left.
\<close>

fun body_ext :: "string \<Rightarrow> (string \<times> string) option" where
  "body_ext [] = None"
| "body_ext (c # t) =
     (if c = dq then None
      else (case ext_len t of
              Some n \<Rightarrow> Some (c # take n t, drop n t)
            | None \<Rightarrow>
               (case body_ext t of
                  None \<Rightarrow> None
                | Some (m, r) \<Rightarrow> Some (c # m, r))))"

text \<open>\<^verbatim>\<open>(?:\?[^\"']*)?\<close>: greedy, so it never fails and what follows is not looked at.\<close>

definition query_part :: "string \<Rightarrow> string" where
  "query_part t =
     (case t of
        [] \<Rightarrow> []
      | c # r \<Rightarrow>
          if c = CHR ''?'' then c # takeWhile (\<lambda>d. d \<noteq> dq \<and> d \<noteq> sq) r else [])"

text \<open>The match of the whole pattern at the start of the text, if there is one.\<close>

definition match_at :: "string \<Rightarrow> string option" where
  "match_at t =
     (case scheme_len t of
        None \<Rightarrow> None
      | Some n \<Rightarrow>
         (case body_ext (drop n t) of
            None \<Rightarrow> None
          | Some (m, r) \<Rightarrow> Some (take n t @ m @ query_part r)))"




lemma match_at_scheme:
  "match_at t = Some m \<Longrightarrow> prefix ''http://'' m \<or> prefix ''https://'' m"
  by (auto simp: match_at_def scheme_len_def prefix_def split: option.splits if_splits)

lemma match_at_nonempty: "match_at t = Some m \<Longrightarrow> m \<noteq> []"
  using match_at_scheme by fastforce

text \<open>
  \<^verbatim>\<open>re.findall\<close>: the matches from left to right, each search starting where the last
  match ended. The pattern has one group, around all of it, so each item is the text
  matched.
\<close>

function findall :: "string \<Rightarrow> string list" where
  "findall [] = []"
| "findall (c # t) =
     (case match_at (c # t) of
        None \<Rightarrow> findall t
      | Some m \<Rightarrow> m # findall (drop (length m) (c # t)))"
  by pat_completeness auto
termination
proof (relation "measure length")
  show "wf (measure length)" by simp
next
  fix c :: char and t :: string
  show "(t, c # t) \<in> measure length" by simp
next
  fix c :: char and t m :: string
  assume "match_at (c # t) = Some m"
  then have "m \<noteq> []" by (rule match_at_nonempty)
  then show "(drop (length m) (c # t), c # t) \<in> measure length" by (cases m) auto
qed

section \<open>Exceptions\<close>

text \<open>
  The exceptions that reach the program. All of them derive from \<^verbatim>\<open>Exception\<close>, so an
  \<^verbatim>\<open>except Exception\<close> clause catches each one. \<open>RuntimeError\<close> is the one the program
  raises itself; the others are raised by the libraries it calls: the HTTP client, the
  download tool, the operating system, the decoding of a file, and the markup parser
  (\<open>FeatureNotFound\<close> when \<^verbatim>\<open>lxml\<close> is not installed, \<open>ParserRejectedMarkup\<close> when the
  parser gives up on a page).
\<close>

datatype exn =
    RuntimeError string
  | RequestException string
  | HTTPError nat
  | DownloadError string
  | OSError string
  | UnicodeDecodeError
  | FeatureNotFound string
  | ParserRejectedMarkup string

section \<open>The manifest extractor\<close>

text \<open>
  A Python \<^verbatim>\<open>set\<close> of strings is modelled as a list without duplicates, in insertion
  order. The order in which Python iterates over a set is not specified; the theorems
  below speak of the elements of the result, or hold for every order.
\<close>

text \<open>\<^verbatim>\<open>s.add(x)\<close>\<close>

definition set_add :: "'a \<Rightarrow> 'a list \<Rightarrow> 'a list" where
  "set_add x s = (if x \<in> set s then s else s @ [x])"

text \<open>
  The body of the loop over \<^verbatim>\<open>soup.find_all('script')\<close>. A script element is given by
  its \<^verbatim>\<open>.string\<close>, which is \<^verbatim>\<open>None\<close> or a string; \<^verbatim>\<open>if not script.string: continue\<close>
  skips \<^verbatim>\<open>None\<close> and the empty string.
\<close>

definition scan_script :: "string option \<Rightarrow> string list \<Rightarrow> string list" where
  "scan_script sc manifests =
     (case sc of
        None \<Rightarrow> manifests
      | Some s \<Rightarrow> if s = [] then manifests else fold set_add (findall s) manifests)"

text \<open>
  The set \<^verbatim>\<open>manifests\<close> when the two scanning loops are done, for the script elements
  that the parser found.
\<close>

definition manifest_candidates :: "string option list \<Rightarrow> string \<Rightarrow> string list" where
  "manifest_candidates scripts html =
     fold scan_script scripts (fold set_add (findall html) [])"

text \<open>The body of the normalising loop; \<open>urljoin\<close> is \<^verbatim>\<open>urllib.parse.urljoin\<close>.\<close>

definition normalize_url ::
  "(string \<Rightarrow> string \<Rightarrow> string) \<Rightarrow> string \<Rightarrow> string \<Rightarrow> string list \<Rightarrow> string list" where
  "normalize_url urljoin base_url url normalized =
     (if startswith url ''/'' then set_add (urljoin base_url url) normalized
      else set_add url normalized)"

text \<open>
  The markup parser is a library: \<open>find_scripts html\<close> stands for
  \<^verbatim>\<open>BeautifulSoup(html, 'lxml').find_all('script')\<close>, given as the \<^verbatim>\<open>.string\<close> of every
  element found, or for the exception that the parser raises. The method has no
  \<^verbatim>\<open>try\<close>, so that exception is its own.
\<close>

definition discover_manifest_urls ::
  "(string \<Rightarrow> string \<Rightarrow> string) \<Rightarrow> (string \<Rightarrow> exn + string option list) \<Rightarrow> string \<Rightarrow> string
     \<Rightarrow> exn + string list" where
  "discover_manifest_urls urljoin find_scripts html base_url =
     (case find_scripts html of
        Inl e \<Rightarrow> Inl e
      | Inr scripts \<Rightarrow>
          Inr (fold (normalize_url urljoin base_url) (manifest_candidates scripts html) []))"

section \<open>The log and the outside world\<close>

text \<open>
  A call of the module's \<^verbatim>\<open>logger\<close>: the level, the format string, its arguments, and
  the exception that \<^verbatim>\<open>logger.exception\<close> attaches.
\<close>

datatype level = INFO | WARNING | ERROR

datatype arg = Str string | Num nat

datatype log_record = Log level string "arg list" "exn option"

record response =
  status_code :: nat
  resp_text :: string

record cookie =
  cookie_domain :: string
  cookie_name :: string
  cookie_value :: string

text \<open>
  What the constructor adds to the \<^verbatim>\<open>requests.Session\<close>: the headers given to
  \<^verbatim>\<open>headers.update\<close> and the calls of \<^verbatim>\<open>cookies.set\<close>, in order.
\<close>

record session =
  headers :: "(string \<times> string) list"
  cookies :: "cookie list"

text \<open>The fields of a \<^verbatim>\<open>CareerwillDownloader\<close> that are read after construction.\<close>

record downloader =
  session :: session
  output_dir :: string

text \<open>
  The libraries and the system, which are not part of the program, as parameters:
  \<^item> \<open>session_get s url\<close> is \<^verbatim>\<open>session.get(url)\<close>: a response, or the exception raised;
  \<^item> \<open>raise_for_status r\<close> is the exception that \<^verbatim>\<open>r.raise_for_status()\<close> raises, if any;
  \<^item> \<open>soup_scripts html\<close> is the \<^verbatim>\<open>.string\<close> of each
    \<^verbatim>\<open>BeautifulSoup(html, 'lxml').find_all('script')\<close>, or the exception raised;
  \<^item> \<open>soup_links html\<close> is the \<^verbatim>\<open>href\<close> of each
    \<^verbatim>\<open>BeautifulSoup(html, 'lxml').find_all('a', href=True)\<close>, for a dashboard page that
    the parser takes: what is proved of \<^verbatim>\<open>get_enrolled_courses\<close> is about the list it
    returns;
  \<^item> \<open>url_join\<close> is \<^verbatim>\<open>urllib.parse.urljoin\<close>;
  \<^item> \<open>yt_dlp_installed\<close> tells whether \<^verbatim>\<open>import yt_dlp\<close> succeeded;
  \<^item> \<open>ydl_download outtmpl url\<close> is the exception that \<^verbatim>\<open>ydl.download([url])\<close> raises,
    if any, for a \<^verbatim>\<open>YoutubeDL\<close> made with that output template;
  \<^item> \<open>makedirs p\<close> is the exception that \<^verbatim>\<open>os.makedirs(p, exist_ok=True)\<close> raises, if any;
  \<^item> \<open>path_exists\<close>, \<open>read_text\<close> and \<open>getcwd\<close> are \<^verbatim>\<open>os.path.exists\<close>, reading a
    whole file as UTF-8 text, and \<^verbatim>\<open>os.getcwd()\<close>.
\<close>

record env =
  session_get :: "session \<Rightarrow> string \<Rightarrow> exn + response"
  raise_for_status :: "response \<Rightarrow> exn option"
  soup_scripts :: "string \<Rightarrow> exn + string option list"
  soup_links :: "string \<Rightarrow> string list"
  url_join :: "string \<Rightarrow> string \<Rightarrow> string"
  yt_dlp_installed :: bool
  ydl_download :: "string \<Rightarrow> string \<Rightarrow> exn option"
  makedirs :: "string \<Rightarrow> exn option"
  path_exists :: "string \<Rightarrow> bool"
  read_text :: "string \<Rightarrow> exn + string"
  getcwd :: string

text \<open>
  What the program does to the world: the records it logs, the directories it creates and
  the downloads it hands to the tool (output template and manifest URL), each in order.
\<close>

record world =
  log :: "log_record list"
  made_dirs :: "string list"
  downloads :: "(string \<times> string) list"

definition logger_info :: "string \<Rightarrow> arg list \<Rightarrow> world \<Rightarrow> world" where
  "logger_info fmt as w = w\<lparr>log := log w @ [Log INFO fmt as None]\<rparr>"

definition logger_warning :: "string \<Rightarrow> arg list \<Rightarrow> world \<Rightarrow> world" where
  "logger_warning fmt as w = w\<lparr>log := log w @ [Log WARNING fmt as None]\<rparr>"

definition logger_exception :: "string \<Rightarrow> arg list \<Rightarrow> exn \<Rightarrow> world \<Rightarrow> world" where
  "logger_exception fmt as e w = w\<lparr>log := log w @ [Log ERROR fmt as (Some e)]\<rparr>"

text \<open>\<^verbatim>\<open>os.path.join(a, b)\<close> on a POSIX system.\<close>

definition path_join :: "string \<Rightarrow> string \<Rightarrow> string" where
  "path_join a b =
     (if startswith b ''/'' then b
      else if a = [] \<or> last a = CHR ''/'' then a @ b
      else a @ ''/'' @ b)"

text \<open>The decimal digits of a number, as an f-string writes it.\<close>

function str_nat :: "nat \<Rightarrow> string" where
  "str_nat n =
     (if n < 10 then [''0123456789'' ! n]
      else str_nat (n div 10) @ [''0123456789'' ! (n mod 10)])"
  by pat_completeness auto
termination
  by (relation "measure id") auto

declare str_nat.simps [simp del]

section \<open>The session authenticator\<close>

text \<open>\<^verbatim>\<open>str.isspace\<close> on a character, for the code points below 256.\<close>

definition isspace :: "char \<Rightarrow> bool" where
  "isspace c =
     (c \<in> {CHR 0x09, CHR 0x0A, CHR 0x0B, CHR 0x0C, CHR 0x0D, CHR 0x1C, CHR 0x1D, CHR 0x1E,
            CHR 0x1F, CHR 0x20, CHR 0x85, CHR 0xA0})"

text \<open>\<^verbatim>\<open>s.strip()\<close>\<close>

definition strip :: "string \<Rightarrow> string" where
  "strip s = rev (dropWhile isspace (rev (dropWhile isspace s)))"

text \<open>
  \<^verbatim>\<open>s.splitlines()\<close>: a line ends at a line break, \<^verbatim>\<open>\r\n\<close> counts as one, and no empty
  line follows the last break. \<open>splitlines_from cur t\<close> has read \<open>cur\<close> of the current
  line.
\<close>

definition is_linebreak :: "char \<Rightarrow> bool" where
  "is_linebreak c =
     (c \<in> {CHR 0x0A, CHR 0x0B, CHR 0x0C, CHR 0x0D, CHR 0x1C, CHR 0x1D, CHR 0x1E, CHR 0x85})"

fun splitlines_from :: "string \<Rightarrow> string \<Rightarrow> string list" where
  "splitlines_from cur [] = (if cur = [] then [] else [cur])"
| "splitlines_from cur [c] = (if is_linebreak c then [cur] else [cur @ [c]])"
| "splitlines_from cur (c # d # t) =
     (if c = CHR 0x0D \<and> d = CHR 0x0A then cur # splitlines_from [] t
      else if is_linebreak c then cur # splitlines_from [] (d # t)
      else splitlines_from (cur @ [c]) (d # t))"

definition splitlines :: "string \<Rightarrow> string list" where
  "splitlines s = splitlines_from [] s"

text \<open>\<^verbatim>\<open>self.session.cookies.set(name, value, domain=domain)\<close>\<close>

definition cookies_set :: "string \<Rightarrow> string \<Rightarrow> string \<Rightarrow> session \<Rightarrow> session" where
  "cookies_set name value domain s =
     s\<lparr>cookies := cookies s @
        [\<lparr>cookie_domain = domain, cookie_name = name, cookie_value = value\<rparr>]\<rparr>"

text \<open>The body of the loop over the lines of the cookie file.\<close>

definition load_cookie_line :: "string \<Rightarrow> session \<Rightarrow> session" where
  "load_cookie_line line s =
     (if startswith line ''#'' \<or> strip line = [] then s
      else
        let parts = split_on (CHR 0x09) line
        in if 7 \<le> length parts then cookies_set (parts ! 5) (parts ! 6) (parts ! 0) s
           else s)"

text \<open>An optional string that Python takes as true: neither \<^verbatim>\<open>None\<close> nor empty.\<close>

definition truthy :: "string option \<Rightarrow> string option" where
  "truthy x = (case x of None \<Rightarrow> None | Some t \<Rightarrow> if t = [] then None else Some t)"

text \<open>
  \<^verbatim>\<open>__init__\<close>. The output directory is created first, outside any \<^verbatim>\<open>try\<close>. A bearer
  token wins over the cookie file. Reading the cookie file is inside a \<^verbatim>\<open>try\<close>: an
  exception is logged and the session stays as it is. The argument \<^verbatim>\<open>widevine_keys\<close> is
  stored and never read, and is left out.
\<close>

definition init ::
  "env \<Rightarrow> string option \<Rightarrow> string option \<Rightarrow> string option \<Rightarrow> world
     \<Rightarrow> (exn + downloader) \<times> world" where
  "init env bearer_token cookies_file output_dir_arg w =
     (let out = (case truthy output_dir_arg of
                   None \<Rightarrow> path_join (getcwd env) ''careerwill_out''
                 | Some d \<Rightarrow> d);
          s0 = \<lparr>headers = [], cookies = []\<rparr>
      in (case makedirs env out of
            Some e \<Rightarrow> (Inl e, w)
          | None \<Rightarrow>
             (let w1 = w\<lparr>made_dirs := made_dirs w @ [out]\<rparr>
              in (case truthy bearer_token of
                    Some t \<Rightarrow>
                      (Inr \<lparr>session = s0\<lparr>headers := [(''Authorization'', ''Bearer '' @ t)]\<rparr>,
                            output_dir = out\<rparr>, w1)
                  | None \<Rightarrow>
                     (case truthy cookies_file of
                        None \<Rightarrow> (Inr \<lparr>session = s0, output_dir = out\<rparr>, w1)
                      | Some f \<Rightarrow>
                          if path_exists env f
                          then (case read_text env f of
                                  Inl e \<Rightarrow>
                                    (Inr \<lparr>session = s0, output_dir = out\<rparr>,
                                     logger_exception ''Failed to load cookies file'' [] e w1)
                                | Inr raw \<Rightarrow>
                                    (Inr \<lparr>session = fold load_cookie_line (splitlines raw) s0,
                                          output_dir = out\<rparr>, w1))
                          else (Inr \<lparr>session = s0, output_dir = out\<rparr>, w1))))))"

section \<open>Fetching a page\<close>

text \<open>
  \<^verbatim>\<open>resp = self.session.get(url); resp.raise_for_status()\<close>: the response, unless one
  of the two calls raises.
\<close>

definition get_checked :: "env \<Rightarrow> downloader \<Rightarrow> string \<Rightarrow> exn + response" where
  "get_checked env self url =
     (case session_get env (session self) url of
        Inl e \<Rightarrow> Inl e
      | Inr resp \<Rightarrow>
         (case raise_for_status env resp of
            Some e \<Rightarrow> Inl e
          | None \<Rightarrow> Inr resp))"

definition fetch_course_page :: "env \<Rightarrow> downloader \<Rightarrow> string \<Rightarrow> exn + string" where
  "fetch_course_page env self course_url =
     (case get_checked env self course_url of
        Inl e \<Rightarrow> Inl e
      | Inr resp \<Rightarrow> Inr (resp_text resp))"

section \<open>The download orchestrator\<close>

definition download_manifest_with_ytdlp ::
  "env \<Rightarrow> string \<Rightarrow> string \<Rightarrow> string option \<Rightarrow> world \<Rightarrow> (exn + unit) \<times> world" where
  "download_manifest_with_ytdlp env manifest_url out_dir filename w =
     (if \<not> yt_dlp_installed env
      then (Inl (RuntimeError ''yt_dlp not installed in environment''), w)
      else
        let outtmpl = path_join out_dir
              (case filename of
                 None \<Rightarrow> ''%(title)s.%(ext)s''
               | Some f \<Rightarrow> if f = [] then ''%(title)s.%(ext)s'' else f);
            w1 = logger_info ''Downloading manifest: %s'' [Str manifest_url] w;
            w2 = w1\<lparr>downloads := downloads w1 @ [(outtmpl, manifest_url)]\<rparr>
        in (case ydl_download env outtmpl manifest_url of
              Some e \<Rightarrow> (Inl e, w2)
            | None \<Rightarrow> (Inr (), w2)))"

text \<open>
  The directory of the manifest numbered \<open>i\<close>, and the loop
  \<^verbatim>\<open>for i, m in enumerate(manifests, start=1)\<close>, from index \<open>i\<close> on. The
  directory is created outside the \<^verbatim>\<open>try\<close>, so an exception of \<^verbatim>\<open>os.makedirs\<close> ends the
  loop; an exception of the download is caught and logged, and the loop goes on.
\<close>

definition out_subdir :: "downloader \<Rightarrow> nat \<Rightarrow> string" where
  "out_subdir self i = path_join (output_dir self) (''manifest_'' @ str_nat i)"

fun download_loop ::
  "env \<Rightarrow> downloader \<Rightarrow> nat \<Rightarrow> string list \<Rightarrow> world \<Rightarrow> (exn + unit) \<times> world" where
  "download_loop env self i [] w = (Inr (), w)"
| "download_loop env self i (m # ms) w =
     (let d = out_subdir self i
      in (case makedirs env d of
            Some e \<Rightarrow> (Inl e, w)
          | None \<Rightarrow>
             (let w1 = w\<lparr>made_dirs := made_dirs w @ [d]\<rparr>
              in (case download_manifest_with_ytdlp env m d None w1 of
                    (Inl e, w2) \<Rightarrow>
                      download_loop env self (Suc i) ms
                        (logger_exception ''Failed to download manifest: %s'' [Str m] e w2)
                  | (Inr u, w2) \<Rightarrow> download_loop env self (Suc i) ms w2))))"

definition download_course :: "env \<Rightarrow> downloader \<Rightarrow> string \<Rightarrow> world \<Rightarrow> (exn + unit) \<times> world" where
  "download_course env self course_url w =
     (let w1 = logger_info ''Fetching course page: %s'' [Str course_url] w
      in (case fetch_course_page env self course_url of
            Inl e \<Rightarrow> (Inl e, w1)
          | Inr html \<Rightarrow>
             (case discover_manifest_urls (url_join env) (soup_scripts env) html course_url of
                Inl e \<Rightarrow> (Inl e, w1)
              | Inr manifests \<Rightarrow>
                 (let w2 = logger_info ''Found %d manifest(s)'' [Num (length manifests)] w1
                  in if manifests = []
                     then (Inr (),
                           logger_warning
                             ''No manifest URLs found in page. The site may use an API or DRM-protected packaging.''
                             [] w2)
                     else download_loop env self 1 manifests w2))))"

section \<open>The course-link discoverer\<close>

text \<open>\<^verbatim>\<open>href.split('?')[0]\<close>\<close>

definition strip_query :: "string \<Rightarrow> string" where
  "strip_query href = (case split_on (CHR ''?'') href of [] \<Rightarrow> [] | p # ps \<Rightarrow> p)"

text \<open>The normalising step: a link that starts with \<^verbatim>\<open>/\<close> is joined to the dashboard URL.\<close>

definition resolve_href :: "(string \<Rightarrow> string \<Rightarrow> string) \<Rightarrow> string \<Rightarrow> string \<Rightarrow> string" where
  "resolve_href urljoin dashboard_url href =
     (if startswith href ''/'' then urljoin dashboard_url href else href)"

text \<open>\<^verbatim>\<open>'/course/' in href or '/learn/' in href\<close>\<close>

definition is_course_link :: "string \<Rightarrow> bool" where
  "is_course_link href = (contains ''/course/'' href \<or> contains ''/learn/'' href)"

text \<open>The body of the loop over the links.\<close>

definition collect_link ::
  "(string \<Rightarrow> string \<Rightarrow> string) \<Rightarrow> string \<Rightarrow> string \<Rightarrow> string list \<Rightarrow> string list" where
  "collect_link urljoin dashboard_url href candidates =
     (let href = resolve_href urljoin dashboard_url href
      in if is_course_link href then set_add (strip_query href) candidates else candidates)"

text \<open>The loop and \<^verbatim>\<open>sorted(candidates)\<close>: strings are compared code point by code point.\<close>

definition course_links ::
  "(string \<Rightarrow> string \<Rightarrow> string) \<Rightarrow> string \<Rightarrow> string list \<Rightarrow> string list" where
  "course_links urljoin dashboard_url hrefs =
     sort (fold (collect_link urljoin dashboard_url) hrefs [])"

definition get_enrolled_courses ::
  "env \<Rightarrow> downloader \<Rightarrow> string option \<Rightarrow> world \<Rightarrow> string list \<times> world" where
  "get_enrolled_courses env self dashboard_url w =
     (let dashboard_url =
            (case dashboard_url of None \<Rightarrow> ''https://web.careerwill.com/'' | Some u \<Rightarrow> u)
      in (case get_checked env self dashboard_url of
            Inl e \<Rightarrow>
              ([], logger_exception ''Failed to fetch dashboard URL: %s'' [Str dashboard_url] e w)
          | Inr resp \<Rightarrow>
             (let results = course_links (url_join env) dashboard_url (soup_links env (resp_text resp))
              in (results,
                  logger_info ''Discovered %d enrolled course(s)'' [Num (length results)] w))))"

section \<open>Notions used in the statements\<close>

text \<open>The matches that one script element contributes.\<close>

definition script_matches :: "string option \<Rightarrow> string set" where
  "script_matches sc = (case sc of None \<Rightarrow> {} | Some s \<Rightarrow> set (findall s))"



text \<open>One round of the loop, when the directory can be made.\<close>

definition after_attempt :: "env \<Rightarrow> downloader \<Rightarrow> nat \<Rightarrow> string \<Rightarrow> world \<Rightarrow> world" where
  "after_attempt env self i m w =
     (case download_manifest_with_ytdlp env m (out_subdir self i) None
             (w\<lparr>made_dirs := made_dirs w @ [out_subdir self i]\<rparr>) of
        (Inl e, w2) \<Rightarrow> logger_exception ''Failed to download manifest: %s'' [Str m] e w2
      | (Inr u, w2) \<Rightarrow> w2)"

text \<open>The links of a page that qualify as course links, once resolved.\<close>

definition qualifying :: "(string \<Rightarrow> string \<Rightarrow> string) \<Rightarrow> string \<Rightarrow> string list \<Rightarrow> string set" where
  "qualifying urljoin dashboard_url hrefs =
     {h' \<in> resolve_href urljoin dashboard_url ` set hrefs. is_course_link h'}"

section \<open>An example environment\<close>

text \<open>
  A dashboard page with five links, a site that answers 404 for one course and serves a
  page without manifests for another, a host that is down, and a download tool that
  fails on one manifest; and a course page with three manifests. The theorems below are
  instantiated on them.
\<close>

definition example_dashboard :: string where
  \<open>example_dashboard =
     ''<html><body><a href="/learn/intro?x=1">Intro</a><a href="https://web.careerwill.com/course/12?ref=home">Maths</a><a href="/course/12">Maths</a><a href="/about">About</a><a href="https://web.careerwill.com/course/12?tab=2">Maths</a></body></html>''\<close>

definition example_env :: env where
  "example_env =
     \<lparr>session_get = (\<lambda>s url.
        if url = ''https://down.example/'' then Inl (RequestException ''connection refused'')
        else if url = ''https://web.careerwill.com/course/404''
          then Inr \<lparr>status_code = 404, resp_text = ''Not Found''\<rparr>
        else if url = ''https://web.careerwill.com/course/7''
          then Inr \<lparr>status_code = 200, resp_text = ''<html><body>protected player</body></html>''\<rparr>
        else Inr \<lparr>status_code = 200, resp_text = example_dashboard\<rparr>),
      raise_for_status = (\<lambda>r.
        if 400 \<le> status_code r \<and> status_code r < 600 then Some (HTTPError (status_code r))
        else None),
      soup_scripts = (\<lambda>html. Inr []),
      soup_links = (\<lambda>html.
        if html = example_dashboard
        then [''/learn/intro?x=1'', ''https://web.careerwill.com/course/12?ref=home'',
              ''/course/12'', ''/about'', ''https://web.careerwill.com/course/12?tab=2'']
        else []),
      url_join = (\<lambda>base url. ''https://web.careerwill.com'' @ url),
      yt_dlp_installed = True,
      ydl_download = (\<lambda>outtmpl url.
        if url = ''https://cdn.example.com/2.m3u8''
        then Some (DownloadError ''HTTP Error 403: Forbidden'')
        else None),
      makedirs = (\<lambda>p. None),
      path_exists = (\<lambda>p. p = ''cookies.txt''),
      read_text = (\<lambda>p. Inr []),
      getcwd = ''/home/user''\<rparr>"

definition example_course_page :: string where
  \<open>example_course_page =
     ''<video src="https://cdn.example.com/1.m3u8"></video><video src="https://cdn.example.com/2.m3u8"></video><video src="https://cdn.example.com/3.mpd"></video>''\<close>

definition example_self :: downloader where
  "example_self = \<lparr>session = \<lparr>headers = [], cookies = []\<rparr>, output_dir = ''out''\<rparr>"

definition empty_world :: world where
  "empty_world = \<lparr>log = [], made_dirs = [], downloads = []\<rparr>"

section \<open>Properties of the manifest extractor\<close>

lemma set_set_add: "set (set_add x s) = insert x (set s)"
  by (auto simp: set_add_def)

lemma distinct_set_add: "distinct s \<Longrightarrow> distinct (set_add x s)"
  by (simp add: set_add_def)

lemma set_fold_set_add: "set (fold set_add xs s) = set xs \<union> set s"
  by (induction xs arbitrary: s) (auto simp: set_set_add)

lemma distinct_fold_set_add: "distinct s \<Longrightarrow> distinct (fold set_add xs s)"
  by (induction xs arbitrary: s) (auto simp: distinct_set_add)

lemma fold_set_add_fresh: "distinct (s @ xs) \<Longrightarrow> fold set_add xs s = s @ xs"
  by (induction xs arbitrary: s) (auto simp: set_add_def)

lemma findall_scheme:
  "m \<in> set (findall t) \<Longrightarrow> prefix ''http://'' m \<or> prefix ''https://'' m"
proof (induction t rule: findall.induct)
  case 1
  then show ?case by simp
next
  case (2 c t)
  show ?case
  proof (cases "match_at (c # t)")
    case None
    with 2 show ?thesis by simp
  next
    case (Some a)
    with "2.prems" have "m = a \<or> m \<in> set (findall (drop (length a) (c # t)))" by simp
    then show ?thesis
    proof
      assume "m = a"
      with Some show ?thesis using match_at_scheme by blast
    next
      assume "m \<in> set (findall (drop (length a) (c # t)))"
      with "2.IH"(2) [OF Some] show ?thesis .
    qed
  qed
qed

lemma set_scan_script: "set (scan_script sc ms) = script_matches sc \<union> set ms"
  by (auto simp: scan_script_def script_matches_def set_fold_set_add split: option.splits)

lemma distinct_scan_script: "distinct ms \<Longrightarrow> distinct (scan_script sc ms)"
  by (auto simp: scan_script_def distinct_fold_set_add split: option.splits)

lemma set_fold_scan_script:
  "set (fold scan_script scs ms) = (\<Union>sc \<in> set scs. script_matches sc) \<union> set ms"
  by (induction scs arbitrary: ms) (auto simp: set_scan_script)

lemma distinct_fold_scan_script: "distinct ms \<Longrightarrow> distinct (fold scan_script scs ms)"
  by (induction scs arbitrary: ms) (auto simp: distinct_scan_script)

lemma set_manifest_candidates:
  "set (manifest_candidates scripts html) =
     set (findall html) \<union> (\<Union>sc \<in> set scripts. script_matches sc)"
  by (auto simp: manifest_candidates_def set_fold_scan_script set_fold_set_add)

lemma distinct_manifest_candidates: "distinct (manifest_candidates scripts html)"
  by (simp add: manifest_candidates_def distinct_fold_scan_script distinct_fold_set_add)

lemma candidate_scheme:
  assumes "u \<in> set (manifest_candidates scripts html)"
  shows "prefix ''http://'' u \<or> prefix ''https://'' u"
  using assms findall_scheme
  by (auto simp: set_manifest_candidates script_matches_def split: option.splits)

lemma scheme_not_slash: "prefix ''http://'' u \<or> prefix ''https://'' u \<Longrightarrow> \<not> startswith u ''/''"
  by (auto simp: startswith_def prefix_def)

lemma fold_normalize_url:
  "\<forall>u \<in> set ms. \<not> startswith u ''/'' \<Longrightarrow>
   fold (normalize_url urljoin base_url) ms acc = fold set_add ms acc"
  by (induction ms arbitrary: acc) (auto simp: normalize_url_def)

lemma normalized_is_candidates:
  "fold (normalize_url urljoin base_url) (manifest_candidates scripts html) [] =
     manifest_candidates scripts html"
proof -
  have "\<forall>u \<in> set (manifest_candidates scripts html). \<not> startswith u ''/''"
    using candidate_scheme scheme_not_slash by blast
  then have "fold (normalize_url urljoin base_url) (manifest_candidates scripts html) [] =
      fold set_add (manifest_candidates scripts html) []"
    by (rule fold_normalize_url)
  also have "\<dots> = manifest_candidates scripts html"
    by (simp add: fold_set_add_fresh distinct_manifest_candidates)
  finally show ?thesis .
qed

lemma discover_is_candidates:
  "discover_manifest_urls urljoin find_scripts html base_url =
     (case find_scripts html of
        Inl e \<Rightarrow> Inl e
      | Inr scripts \<Rightarrow> Inr (manifest_candidates scripts html))"
  by (simp add: discover_manifest_urls_def normalized_is_candidates split: sum.splits)

text \<open>
  C10. Every URL in a collection that \<^verbatim>\<open>discover_manifest_urls\<close> returns begins with
  \<^verbatim>\<open>http://\<close> or \<^verbatim>\<open>https://\<close>, whatever the page and the base URL: the pattern only
  matches candidates that begin with a scheme. So no candidate begins with \<^verbatim>\<open>/\<close>,
  whatever script elements the parser finds, the branch that resolves a root-relative
  candidate against the base URL is never taken, and what is returned is the set of
  candidates as scanned.
\<close>

theorem discover_manifest_urls_scheme:
  "(\<forall>r. discover_manifest_urls urljoin find_scripts html base_url = Inr r \<longrightarrow>
      (\<forall>u \<in> set r. startswith u ''http://'' \<or> startswith u ''https://'')) \<and>
   (\<forall>u \<in> set (manifest_candidates scripts html). \<not> startswith u ''/'') \<and>
   (\<forall>found. find_scripts html = Inr found \<longrightarrow>
      discover_manifest_urls urljoin find_scripts html base_url =
        Inr (manifest_candidates found html))"
proof -
  have a: "\<forall>u \<in> set (manifest_candidates sc html).
      startswith u ''http://'' \<or> startswith u ''https://''" for sc
    using candidate_scheme unfolding startswith_def by blast
  have "\<forall>r. discover_manifest_urls urljoin find_scripts html base_url = Inr r \<longrightarrow>
      (\<forall>u \<in> set r. startswith u ''http://'' \<or> startswith u ''https://'')"
    using a by (auto simp: discover_is_candidates split: sum.splits)
  moreover have "\<forall>u \<in> set (manifest_candidates scripts html). \<not> startswith u ''/''"
    using candidate_scheme scheme_not_slash by blast
  moreover have "\<forall>found. find_scripts html = Inr found \<longrightarrow>
      discover_manifest_urls urljoin find_scripts html base_url =
        Inr (manifest_candidates found html)"
    by (simp add: discover_is_candidates)
  ultimately show ?thesis by blast
qed

theorem discover_manifest_urls_scheme_witness:
  \<open>discover_manifest_urls (\<lambda>b u. b @ u)
     (\<lambda>_. Inr [None, Some ''var u='http://v.example/x.mpd?t=1';''])
     ''<video src="https://cdn.example.com/a.m3u8"></video><script></script><script>var u='http://v.example/x.mpd?t=1';</script>''
     ''https://site.example/''
     = Inr [''https://cdn.example.com/a.m3u8'', ''http://v.example/x.mpd?t=1''] \<and>
   startswith ''https://cdn.example.com/a.m3u8'' ''https://'' \<and>
   startswith ''http://v.example/x.mpd?t=1'' ''http://'' \<and>
   \<not> startswith ''https://cdn.example.com/a.m3u8'' ''/'' \<and>
   \<not> startswith ''http://v.example/x.mpd?t=1'' ''/''\<close>
proof -
  let ?sc = \<open>[None, Some ''var u='http://v.example/x.mpd?t=1';'']\<close>
  let ?fs = \<open>\<lambda>_::string. Inr ?sc :: exn + string option list\<close>
  let ?html = \<open>''<video src="https://cdn.example.com/a.m3u8"></video><script></script><script>var u='http://v.example/x.mpd?t=1';</script>''\<close>
  have c: "manifest_candidates ?sc ?html =
      [''https://cdn.example.com/a.m3u8'', ''http://v.example/x.mpd?t=1'']"
    by (simp add: manifest_candidates_def scan_script_def set_add_def match_at_def
        scheme_len_def ext_len_def query_part_def dq_def sq_def)
  note t = discover_manifest_urls_scheme [of "\<lambda>b u. b @ u" ?fs ?html "''https://site.example/''" ?sc]
  from t have d: "discover_manifest_urls (\<lambda>b u. b @ u) ?fs ?html ''https://site.example/''
      = Inr (manifest_candidates ?sc ?html)"
    by blast
  from t have "\<forall>u \<in> set (manifest_candidates ?sc ?html). \<not> startswith u ''/''"
    by blast
  with c have n: "\<not> startswith ''https://cdn.example.com/a.m3u8'' ''/'' \<and>
      \<not> startswith ''http://v.example/x.mpd?t=1'' ''/''"
    by simp
  from t d have "\<forall>u \<in> set (manifest_candidates ?sc ?html).
      startswith u ''http://'' \<or> startswith u ''https://''"
    by blast
  with c have "startswith ''https://cdn.example.com/a.m3u8'' ''https://'' \<and>
      startswith ''http://v.example/x.mpd?t=1'' ''http://''"
    by (simp add: startswith_def)
  with c d n show ?thesis by simp
qed

subsection \<open>The scan and the shape of the pattern\<close>





















text \<open>
  C1. The specification's example: a script block holding
  \<^verbatim>\<open>https://cdn.example.com/a.m3u8\<close> and a visible link to \<^verbatim>\<open>/video/b.mpd\<close>, on the base
  URL \<^verbatim>\<open>https://site.example/course/1\<close>. The extractor returns the absolute URL only:
  the pattern asks for a scheme, so the root-relative link is not a candidate and
  \<^verbatim>\<open>https://site.example/video/b.mpd\<close> is not in the result, whatever \<^verbatim>\<open>urljoin\<close> does.
\<close>

theorem discover_manifest_urls_root_relative_missed:
  \<open>discover_manifest_urls urljoin
     (\<lambda>_. Inr [Some ''var cfg={"src":"https://cdn.example.com/a.m3u8"}''])
     ''<script>var cfg={"src":"https://cdn.example.com/a.m3u8"}</script><a href="/video/b.mpd">b</a>''
     ''https://site.example/course/1''
   = Inr [''https://cdn.example.com/a.m3u8'']\<close>
  by (simp add: discover_is_candidates manifest_candidates_def scan_script_def set_add_def
      match_at_def scheme_len_def ext_len_def query_part_def dq_def sq_def)

section \<open>Properties of the download orchestrator\<close>

lemma dm_fst:
  "fst (download_manifest_with_ytdlp env m d f w) = fst (download_manifest_with_ytdlp env m d f w')"
  by (simp add: download_manifest_with_ytdlp_def Let_def split: option.splits)

lemma dm_log:
  "log (snd (download_manifest_with_ytdlp env m d f w)) =
     log w @ (if yt_dlp_installed env then [Log INFO ''Downloading manifest: %s'' [Str m] None] else [])"
  by (simp add: download_manifest_with_ytdlp_def Let_def logger_info_def split: option.splits)

lemma dm_made_dirs:
  "made_dirs (snd (download_manifest_with_ytdlp env m d f w)) = made_dirs w"
  by (simp add: download_manifest_with_ytdlp_def Let_def logger_info_def split: option.splits)

lemma dm_downloads:
  "map snd (downloads (snd (download_manifest_with_ytdlp env m d f w))) =
     map snd (downloads w) @ (if yt_dlp_installed env then [m] else [])"
  by (simp add: download_manifest_with_ytdlp_def Let_def logger_info_def split: option.splits)

lemma download_loop_step:
  "makedirs env (out_subdir self i) = None \<Longrightarrow>
   download_loop env self i (m # ms) w = download_loop env self (Suc i) ms (after_attempt env self i m w)"
  by (simp add: after_attempt_def Let_def split: prod.splits sum.splits)

lemma after_attempt_made_dirs:
  "made_dirs (after_attempt env self i m w) = made_dirs w @ [out_subdir self i]"
proof -
  obtain r w2 where d: "download_manifest_with_ytdlp env m (out_subdir self i) None
             (w\<lparr>made_dirs := made_dirs w @ [out_subdir self i]\<rparr>) = (r, w2)"
    by (cases "download_manifest_with_ytdlp env m (out_subdir self i) None
             (w\<lparr>made_dirs := made_dirs w @ [out_subdir self i]\<rparr>)")
  have "made_dirs w2 = made_dirs w @ [out_subdir self i]"
    using dm_made_dirs [of env m "out_subdir self i" None "w\<lparr>made_dirs := made_dirs w @ [out_subdir self i]\<rparr>"] d
    by simp
  with d show ?thesis
    by (cases r) (simp_all add: after_attempt_def logger_exception_def)
qed

lemma after_attempt_downloads:
  "map snd (downloads (after_attempt env self i m w)) =
     map snd (downloads w) @ (if yt_dlp_installed env then [m] else [])"
proof -
  obtain r w2 where d: "download_manifest_with_ytdlp env m (out_subdir self i) None
             (w\<lparr>made_dirs := made_dirs w @ [out_subdir self i]\<rparr>) = (r, w2)"
    by (cases "download_manifest_with_ytdlp env m (out_subdir self i) None
             (w\<lparr>made_dirs := made_dirs w @ [out_subdir self i]\<rparr>)")
  have "map snd (downloads w2) = map snd (downloads w) @ (if yt_dlp_installed env then [m] else [])"
    using dm_downloads [of env m "out_subdir self i" None "w\<lparr>made_dirs := made_dirs w @ [out_subdir self i]\<rparr>"] d
    by simp
  with d show ?thesis
    by (cases r) (simp_all add: after_attempt_def logger_exception_def)
qed

lemma after_attempt_log_mono: "set (log w) \<subseteq> set (log (after_attempt env self i m w))"
proof -
  obtain r w2 where d: "download_manifest_with_ytdlp env m (out_subdir self i) None
             (w\<lparr>made_dirs := made_dirs w @ [out_subdir self i]\<rparr>) = (r, w2)"
    by (cases "download_manifest_with_ytdlp env m (out_subdir self i) None
             (w\<lparr>made_dirs := made_dirs w @ [out_subdir self i]\<rparr>)")
  have "set (log w) \<subseteq> set (log w2)"
    using dm_log [of env m "out_subdir self i" None "w\<lparr>made_dirs := made_dirs w @ [out_subdir self i]\<rparr>"] d
    by simp
  with d show ?thesis
    by (cases r) (auto simp: after_attempt_def logger_exception_def)
qed

lemma after_attempt_failure_logged:
  assumes "fst (download_manifest_with_ytdlp env m (out_subdir self i) None w0) = Inl e"
  shows "Log ERROR ''Failed to download manifest: %s'' [Str m] (Some e) \<in> set (log (after_attempt env self i m w))"
proof -
  obtain r w2 where d: "download_manifest_with_ytdlp env m (out_subdir self i) None
             (w\<lparr>made_dirs := made_dirs w @ [out_subdir self i]\<rparr>) = (r, w2)"
    by (cases "download_manifest_with_ytdlp env m (out_subdir self i) None
             (w\<lparr>made_dirs := made_dirs w @ [out_subdir self i]\<rparr>)")
  have "r = Inl e"
    using assms d dm_fst [of env m "out_subdir self i" None w0 "w\<lparr>made_dirs := made_dirs w @ [out_subdir self i]\<rparr>"]
    by simp
  with d show ?thesis by (simp add: after_attempt_def logger_exception_def)
qed

lemma dirs_ok_Cons:
  assumes "\<forall>k < length (m # ms). makedirs env (out_subdir self (i + k)) = None"
  shows "makedirs env (out_subdir self i) = None"
    and "\<forall>k < length ms. makedirs env (out_subdir self (Suc i + k)) = None"
proof -
  from assms have "0 < length (m # ms) \<longrightarrow> makedirs env (out_subdir self (i + 0)) = None"
    by blast
  then show "makedirs env (out_subdir self i) = None" by simp
  show "\<forall>k < length ms. makedirs env (out_subdir self (Suc i + k)) = None"
  proof (intro allI impI)
    fix k
    assume "k < length ms"
    then have "Suc k < length (m # ms)" by simp
    with assms have "makedirs env (out_subdir self (i + Suc k)) = None" by blast
    then show "makedirs env (out_subdir self (Suc i + k)) = None" by simp
  qed
qed

lemma download_loop_completes:
  "\<forall>k < length ms. makedirs env (out_subdir self (i + k)) = None \<Longrightarrow>
   fst (download_loop env self i ms w) = Inr ()"
proof (induction ms arbitrary: i w)
  case Nil
  then show ?case by simp
next
  case (Cons m ms)
  note d = dirs_ok_Cons [OF Cons.prems]
  from Cons.IH [OF d(2)] d(1) show ?case
    by (simp add: download_loop_step del: download_loop.simps(2))
qed

lemma download_loop_made_dirs:
  "\<forall>k < length ms. makedirs env (out_subdir self (i + k)) = None \<Longrightarrow>
   made_dirs (snd (download_loop env self i ms w)) =
     made_dirs w @ map (out_subdir self) [i ..< i + length ms]"
proof (induction ms arbitrary: i w)
  case Nil
  then show ?case by simp
next
  case (Cons m ms)
  note d = dirs_ok_Cons [OF Cons.prems]
  have "[i ..< i + length (m # ms)] = i # [Suc i ..< Suc i + length ms]"
    using upt_conv_Cons [of i "i + length (m # ms)"] by simp
  with Cons.IH [OF d(2)] d(1) show ?case
    by (simp add: download_loop_step after_attempt_made_dirs del: download_loop.simps(2))
qed

lemma download_loop_downloads:
  "\<forall>k < length ms. makedirs env (out_subdir self (i + k)) = None \<Longrightarrow> yt_dlp_installed env \<Longrightarrow>
   map snd (downloads (snd (download_loop env self i ms w))) = map snd (downloads w) @ ms"
proof (induction ms arbitrary: i w)
  case Nil
  then show ?case by simp
next
  case (Cons m ms)
  note d = dirs_ok_Cons [OF Cons.prems(1)]
  from Cons.IH [OF d(2) Cons.prems(2)] d(1) Cons.prems(2) show ?case
    by (simp add: download_loop_step after_attempt_downloads del: download_loop.simps(2))
qed

text \<open>The loop only adds to the log, also when it is cut short.\<close>

lemma download_loop_log_mono:
  "set (log w) \<subseteq> set (log (snd (download_loop env self i ms w)))"
proof (induction ms arbitrary: i w)
  case Nil
  then show ?case by simp
next
  case (Cons m ms)
  show ?case
  proof (cases "makedirs env (out_subdir self i)")
    case None
    have "set (log (after_attempt env self i m w))
        \<subseteq> set (log (snd (download_loop env self (Suc i) ms (after_attempt env self i m w))))"
      by (rule Cons.IH)
    with after_attempt_log_mono [of w env self i m]
    have "set (log w)
        \<subseteq> set (log (snd (download_loop env self (Suc i) ms (after_attempt env self i m w))))"
      by blast
    with None show ?thesis by (simp add: download_loop_step del: download_loop.simps(2))
  next
    case (Some e)
    then show ?thesis by (simp add: Let_def)
  qed
qed

lemma download_loop_failure_logged:
  "\<forall>j < length ms. makedirs env (out_subdir self (i + j)) = None \<Longrightarrow>
   k < length ms \<Longrightarrow>
   fst (download_manifest_with_ytdlp env (ms ! k) (out_subdir self (i + k)) None w0) = Inl e \<Longrightarrow>
   Log ERROR ''Failed to download manifest: %s'' [Str (ms ! k)] (Some e)
     \<in> set (log (snd (download_loop env self i ms w)))"
proof (induction ms arbitrary: i k w)
  case Nil
  then show ?case by simp
next
  case (Cons m ms)
  note d = dirs_ok_Cons [OF Cons.prems(1)]
  have step: "download_loop env self i (m # ms) w =
      download_loop env self (Suc i) ms (after_attempt env self i m w)"
    using d(1) by (simp add: download_loop_step del: download_loop.simps(2))
  show ?case
  proof (cases k)
    case 0
    with Cons.prems have "Log ERROR ''Failed to download manifest: %s'' [Str m] (Some e)
        \<in> set (log (after_attempt env self i m w))"
      using after_attempt_failure_logged [of env m self i w0 e w] by simp
    with download_loop_log_mono [of "after_attempt env self i m w" env self "Suc i" ms] 0 step
    show ?thesis by auto
  next
    case (Suc k')
    with Cons.prems have k: "k' < length ms"
      and f: "fst (download_manifest_with_ytdlp env (ms ! k') (out_subdir self (Suc i + k')) None w0) = Inl e"
      by simp_all
    from Cons.IH [OF d(2) k f] Suc step show ?thesis by simp
  qed
qed

text \<open>
  The loop on any list of manifests, from any index: when the directories can be made it
  runs to its end, whichever downloads fail.
\<close>

lemma download_loop_isolates_failures:
  assumes "\<forall>k < length ms. makedirs env (out_subdir self (i + k)) = None"
  shows "fst (download_loop env self i ms w) = Inr () \<and>
         made_dirs (snd (download_loop env self i ms w)) =
           made_dirs w @ map (out_subdir self) [i ..< i + length ms] \<and>
         (yt_dlp_installed env \<longrightarrow>
            map snd (downloads (snd (download_loop env self i ms w))) = map snd (downloads w) @ ms) \<and>
         (\<forall>k < length ms. \<forall>e.
            fst (download_manifest_with_ytdlp env (ms ! k) (out_subdir self (i + k)) None w0) = Inl e \<longrightarrow>
            Log ERROR ''Failed to download manifest: %s'' [Str (ms ! k)] (Some e)
              \<in> set (log (snd (download_loop env self i ms w))))"
  using download_loop_completes [OF assms] download_loop_made_dirs [OF assms]
    download_loop_downloads [OF assms] download_loop_failure_logged [OF assms]
  by blast

text \<open>
  \<^verbatim>\<open>download_course\<close> runs the loop on the manifests it found, numbered from 1.
\<close>

lemma download_course_runs_loop:
  assumes "fetch_course_page env self course_url = Inr html"
    and "discover_manifest_urls (url_join env) (soup_scripts env) html course_url = Inr ms"
    and "ms \<noteq> []"
  shows "download_course env self course_url w =
           download_loop env self 1 ms
             (logger_info ''Found %d manifest(s)'' [Num (length ms)]
                (logger_info ''Fetching course page: %s'' [Str course_url] w))"
  using assms by (simp add: download_course_def Let_def)

lemma example_course_manifests:
  "discover_manifest_urls (url_join example_env) (soup_scripts example_env) example_course_page url
     = Inr [''https://cdn.example.com/1.m3u8'', ''https://cdn.example.com/2.m3u8'',
            ''https://cdn.example.com/3.mpd'']"
  by (simp add: discover_is_candidates manifest_candidates_def example_env_def
      example_course_page_def set_add_def match_at_def scheme_len_def ext_len_def
      query_part_def dq_def sq_def)

lemma example_subdirs:
  "out_subdir example_self 1 = ''out/manifest_1'' \<and>
   out_subdir example_self 2 = ''out/manifest_2'' \<and>
   out_subdir example_self 3 = ''out/manifest_3''"
  by (simp add: out_subdir_def example_self_def path_join_def startswith_def str_nat.simps)

lemma example_subdirs_Suc:
  "out_subdir example_self (Suc 0) = ''out/manifest_1'' \<and>
   out_subdir example_self (Suc (Suc 0)) = ''out/manifest_2'' \<and>
   out_subdir example_self (Suc (Suc (Suc 0))) = ''out/manifest_3''"
  using example_subdirs by (simp add: numeral_2_eq_2 numeral_3_eq_3)

text \<open>
  C3, as the code has it. Each manifest's download attempt is isolated, as long as the
  directories of the manifests can be made. When the course page is fetched and the
  manifests \<open>ms\<close> are found on it, then, whichever of the downloads fail (the tool
  raises, or \<^verbatim>\<open>yt_dlp\<close> is not installed), \<^verbatim>\<open>download_course\<close> returns normally: a
  directory is made for every manifest, every manifest is handed to the tool when the
  tool is installed, and every failure is logged with the URL of the manifest that
  failed.
\<close>

theorem download_course_isolates_failures:
  assumes f: "fetch_course_page env self course_url = Inr html"
    and d: "discover_manifest_urls (url_join env) (soup_scripts env) html course_url = Inr ms"
    and mk: "\<forall>k < length ms. makedirs env (out_subdir self (1 + k)) = None"
  shows "fst (download_course env self course_url w) = Inr () \<and>
         made_dirs (snd (download_course env self course_url w)) =
           made_dirs w @ map (out_subdir self) [1 ..< 1 + length ms] \<and>
         (yt_dlp_installed env \<longrightarrow>
            map snd (downloads (snd (download_course env self course_url w))) =
              map snd (downloads w) @ ms) \<and>
         (\<forall>k < length ms. \<forall>e.
            fst (download_manifest_with_ytdlp env (ms ! k) (out_subdir self (1 + k)) None w0) = Inl e \<longrightarrow>
            Log ERROR ''Failed to download manifest: %s'' [Str (ms ! k)] (Some e)
              \<in> set (log (snd (download_course env self course_url w))))"
proof (cases "ms = []")
  case True
  with f d show ?thesis
    by (simp add: download_course_def Let_def logger_info_def logger_warning_def)
next
  case False
  let ?w2 = "logger_info ''Found %d manifest(s)'' [Num (length ms)]
               (logger_info ''Fetching course page: %s'' [Str course_url] w)"
  have r: "download_course env self course_url w = download_loop env self 1 ms ?w2"
    using f d False by (rule download_course_runs_loop)
  have w2: "made_dirs ?w2 = made_dirs w \<and> downloads ?w2 = downloads w"
    by (simp add: logger_info_def)
  from download_loop_isolates_failures [OF mk, of ?w2 w0] r w2 show ?thesis by simp
qed

theorem download_course_isolates_failures_witness:
  "fst (download_course
          (example_env\<lparr>session_get :=
             (\<lambda>s url. Inr \<lparr>status_code = 200, resp_text = example_course_page\<rparr>)\<rparr>)
          example_self ''https://web.careerwill.com/course/9'' empty_world) = Inr () \<and>
   made_dirs (snd (download_course
          (example_env\<lparr>session_get :=
             (\<lambda>s url. Inr \<lparr>status_code = 200, resp_text = example_course_page\<rparr>)\<rparr>)
          example_self ''https://web.careerwill.com/course/9'' empty_world))
     = [''out/manifest_1'', ''out/manifest_2'', ''out/manifest_3''] \<and>
   map snd (downloads (snd (download_course
          (example_env\<lparr>session_get :=
             (\<lambda>s url. Inr \<lparr>status_code = 200, resp_text = example_course_page\<rparr>)\<rparr>)
          example_self ''https://web.careerwill.com/course/9'' empty_world)))
     = [''https://cdn.example.com/1.m3u8'', ''https://cdn.example.com/2.m3u8'',
        ''https://cdn.example.com/3.mpd''] \<and>
   Log ERROR ''Failed to download manifest: %s'' [Str ''https://cdn.example.com/2.m3u8'']
       (Some (DownloadError ''HTTP Error 403: Forbidden''))
     \<in> set (log (snd (download_course
          (example_env\<lparr>session_get :=
             (\<lambda>s url. Inr \<lparr>status_code = 200, resp_text = example_course_page\<rparr>)\<rparr>)
          example_self ''https://web.careerwill.com/course/9'' empty_world)))"
proof -
  let ?env = "example_env\<lparr>session_get :=
             (\<lambda>s url. Inr \<lparr>status_code = 200, resp_text = example_course_page\<rparr>)\<rparr>"
  let ?url = "''https://web.careerwill.com/course/9''"
  let ?ms = "[''https://cdn.example.com/1.m3u8'', ''https://cdn.example.com/2.m3u8'',
          ''https://cdn.example.com/3.mpd'']"
  have f: "fetch_course_page ?env example_self ?url = Inr example_course_page"
    by (simp add: fetch_course_page_def get_checked_def example_env_def)
  have "discover_manifest_urls (url_join ?env) (soup_scripts ?env) example_course_page ?url
      = discover_manifest_urls (url_join example_env) (soup_scripts example_env)
          example_course_page ?url"
    by simp
  with example_course_manifests [of ?url]
  have d: "discover_manifest_urls (url_join ?env) (soup_scripts ?env) example_course_page ?url
      = Inr ?ms"
    by simp
  have mk: "\<forall>k < length ?ms. makedirs ?env (out_subdir example_self (1 + k)) = None"
    by (simp add: example_env_def)
  have inst: "yt_dlp_installed ?env" by (simp add: example_env_def)
  have dirs: "map (out_subdir example_self) [1 ..< 1 + length ?ms]
      = [''out/manifest_1'', ''out/manifest_2'', ''out/manifest_3'']"
    using example_subdirs example_subdirs_Suc
    by (simp add: upt_rec [of 1] upt_rec [of 2] upt_rec [of 3] upt_rec [of 4])
  have fail: "fst (download_manifest_with_ytdlp ?env (?ms ! 1)
      (out_subdir example_self (1 + 1)) None empty_world)
      = Inl (DownloadError ''HTTP Error 403: Forbidden'')"
    by (simp add: download_manifest_with_ytdlp_def example_env_def Let_def)
  note t = download_course_isolates_failures [OF f d mk, of empty_world empty_world]
  from t have a: "fst (download_course ?env example_self ?url empty_world) = Inr ()" by blast
  from t dirs have b: "made_dirs (snd (download_course ?env example_self ?url empty_world))
      = [''out/manifest_1'', ''out/manifest_2'', ''out/manifest_3'']"
    by (simp add: empty_world_def)
  from t inst have c: "map snd (downloads (snd (download_course ?env example_self ?url empty_world)))
      = ?ms"
    by (simp add: empty_world_def)
  from t have "\<forall>k < length ?ms. \<forall>e.
      fst (download_manifest_with_ytdlp ?env (?ms ! k) (out_subdir example_self (1 + k)) None empty_world) = Inl e \<longrightarrow>
      Log ERROR ''Failed to download manifest: %s'' [Str (?ms ! k)] (Some e)
        \<in> set (log (snd (download_course ?env example_self ?url empty_world)))"
    by blast
  then have "fst (download_manifest_with_ytdlp ?env (?ms ! 1) (out_subdir example_self (1 + 1)) None empty_world)
        = Inl (DownloadError ''HTTP Error 403: Forbidden'') \<longrightarrow>
      Log ERROR ''Failed to download manifest: %s'' [Str (?ms ! 1)] (Some (DownloadError ''HTTP Error 403: Forbidden''))
        \<in> set (log (snd (download_course ?env example_self ?url empty_world)))"
    by (metis One_nat_def length_Cons lessI less_Suc_eq list.size(3))
  with fail have e: "Log ERROR ''Failed to download manifest: %s'' [Str (?ms ! 1)]
        (Some (DownloadError ''HTTP Error 403: Forbidden''))
        \<in> set (log (snd (download_course ?env example_self ?url empty_world)))"
    by blast
  have "?ms ! 1 = ''https://cdn.example.com/2.m3u8''" by simp
  with a b c e show ?thesis by simp
qed

text \<open>
  C3, as the claim states it, fails. The directory of a manifest is made outside the
  \<^verbatim>\<open>try\<close>. Here the download of the first of three manifests fails and is logged, the
  directory of the second cannot be made, and \<^verbatim>\<open>download_course\<close> ends with the
  exception of \<^verbatim>\<open>os.makedirs\<close>: the second and the third manifest are never handed to
  the tool.
\<close>

theorem download_course_makedirs_counterexample:
  "download_course
     (example_env\<lparr>session_get :=
          (\<lambda>s url. Inr \<lparr>status_code = 200, resp_text = example_course_page\<rparr>),
        ydl_download :=
          (\<lambda>outtmpl url. if url = ''https://cdn.example.com/1.m3u8''
             then Some (DownloadError ''HTTP Error 403: Forbidden'') else None),
        makedirs :=
          (\<lambda>p. if p = ''out/manifest_2'' then Some (OSError ''Permission denied'') else None)\<rparr>)
     example_self ''https://web.careerwill.com/course/9'' empty_world =
   (Inl (OSError ''Permission denied''),
    \<lparr>log = [Log INFO ''Fetching course page: %s'' [Str ''https://web.careerwill.com/course/9''] None,
            Log INFO ''Found %d manifest(s)'' [Num 3] None,
            Log INFO ''Downloading manifest: %s'' [Str ''https://cdn.example.com/1.m3u8''] None,
            Log ERROR ''Failed to download manifest: %s'' [Str ''https://cdn.example.com/1.m3u8'']
              (Some (DownloadError ''HTTP Error 403: Forbidden''))],
     made_dirs = [''out/manifest_1''],
     downloads = [(''out/manifest_1/%(title)s.%(ext)s'', ''https://cdn.example.com/1.m3u8'')]\<rparr>)"
proof -
  let ?env = "example_env\<lparr>session_get :=
          (\<lambda>s url. Inr \<lparr>status_code = 200, resp_text = example_course_page\<rparr>),
        ydl_download :=
          (\<lambda>outtmpl url. if url = ''https://cdn.example.com/1.m3u8''
             then Some (DownloadError ''HTTP Error 403: Forbidden'') else None),
        makedirs :=
          (\<lambda>p. if p = ''out/manifest_2'' then Some (OSError ''Permission denied'') else None)\<rparr>"
  let ?url = "''https://web.careerwill.com/course/9''"
  have f: "fetch_course_page ?env example_self ?url = Inr example_course_page"
    by (simp add: fetch_course_page_def get_checked_def example_env_def)
  have "discover_manifest_urls (url_join ?env) (soup_scripts ?env) example_course_page ?url
      = discover_manifest_urls (url_join example_env) (soup_scripts example_env)
          example_course_page ?url"
    by simp
  with example_course_manifests [of ?url]
  have d: "discover_manifest_urls (url_join ?env) (soup_scripts ?env) example_course_page ?url
      = Inr [''https://cdn.example.com/1.m3u8'', ''https://cdn.example.com/2.m3u8'',
             ''https://cdn.example.com/3.mpd'']"
    by simp
  from f d example_subdirs_Suc show ?thesis
    by (simp add: download_course_def Let_def download_manifest_with_ytdlp_def
        logger_info_def logger_exception_def path_join_def startswith_def
        example_env_def empty_world_def)
qed

lemma get_checked_cases:
  "get_checked env self url = Inl e \<longleftrightarrow>
     session_get env (session self) url = Inl e \<or>
     (\<exists>resp. session_get env (session self) url = Inr resp \<and> raise_for_status env resp = Some e)"
  by (auto simp: get_checked_def split: sum.splits option.splits)

text \<open>
  C6, as the code has it. A failure of the course-page fetch is an error of
  \<^verbatim>\<open>download_course\<close> itself: when \<^verbatim>\<open>session.get\<close> raises, or \<^verbatim>\<open>raise_for_status\<close> raises
  on the response it returned, \<^verbatim>\<open>download_course\<close> ends with that exception. It is not
  caught, the page is not processed, only the line announcing the fetch is logged, no
  directory is made and nothing is handed to the download tool. What counts as a failed
  response is for \<^verbatim>\<open>raise_for_status\<close> alone to say: a response on which it does not
  raise is taken as the page, whatever its status code.
\<close>

theorem download_course_fetch_failure:
  "(session_get env (session self) course_url = Inl e \<or>
    (\<exists>resp. session_get env (session self) course_url = Inr resp \<and>
            raise_for_status env resp = Some e) \<longrightarrow>
      download_course env self course_url w =
        (Inl e, w\<lparr>log := log w @ [Log INFO ''Fetching course page: %s'' [Str course_url] None]\<rparr>) \<and>
      downloads (snd (download_course env self course_url w)) = downloads w \<and>
      made_dirs (snd (download_course env self course_url w)) = made_dirs w) \<and>
   (\<forall>resp. session_get env (session self) course_url = Inr resp \<and>
           raise_for_status env resp = None \<longrightarrow>
      fetch_course_page env self course_url = Inr (resp_text resp))"
proof -
  have a: "download_course env self course_url w =
        (Inl e, w\<lparr>log := log w @ [Log INFO ''Fetching course page: %s'' [Str course_url] None]\<rparr>) \<and>
      downloads (snd (download_course env self course_url w)) = downloads w \<and>
      made_dirs (snd (download_course env self course_url w)) = made_dirs w"
    if "session_get env (session self) course_url = Inl e \<or>
         (\<exists>resp. session_get env (session self) course_url = Inr resp \<and>
                 raise_for_status env resp = Some e)"
  proof -
    from that have "get_checked env self course_url = Inl e" by (simp add: get_checked_cases)
    then have "fetch_course_page env self course_url = Inl e" by (simp add: fetch_course_page_def)
    then have "download_course env self course_url w =
           (Inl e, w\<lparr>log := log w @ [Log INFO ''Fetching course page: %s'' [Str course_url] None]\<rparr>)"
      by (simp add: download_course_def logger_info_def)
    then show ?thesis by simp
  qed
  have b: "\<forall>resp. session_get env (session self) course_url = Inr resp \<and>
           raise_for_status env resp = None \<longrightarrow>
      fetch_course_page env self course_url = Inr (resp_text resp)"
    by (simp add: fetch_course_page_def get_checked_def)
  from a b show ?thesis by blast
qed

theorem download_course_fetch_failure_witness:
  "download_course example_env example_self ''https://web.careerwill.com/course/404'' empty_world =
     (Inl (HTTPError 404),
      \<lparr>log = [Log INFO ''Fetching course page: %s'' [Str ''https://web.careerwill.com/course/404''] None],
       made_dirs = [], downloads = []\<rparr>) \<and>
   download_course example_env example_self ''https://down.example/'' empty_world =
     (Inl (RequestException ''connection refused''),
      \<lparr>log = [Log INFO ''Fetching course page: %s'' [Str ''https://down.example/''] None],
       made_dirs = [], downloads = []\<rparr>) \<and>
   raise_for_status example_env
     \<lparr>status_code = 200, resp_text = ''<html><body>protected player</body></html>''\<rparr> = None \<and>
   fetch_course_page example_env example_self ''https://web.careerwill.com/course/7''
     = Inr ''<html><body>protected player</body></html>''"
proof -
  have a: "session_get example_env (session example_self) ''https://down.example/''
      = Inl (RequestException ''connection refused'')"
    by (simp add: example_env_def)
  have b: "\<exists>resp. session_get example_env (session example_self) ''https://web.careerwill.com/course/404''
        = Inr resp \<and> raise_for_status example_env resp = Some (HTTPError 404)"
    by (simp add: example_env_def)
  have c: "session_get example_env (session example_self) ''https://web.careerwill.com/course/7''
        = Inr \<lparr>status_code = 200, resp_text = ''<html><body>protected player</body></html>''\<rparr> \<and>
      raise_for_status example_env
        \<lparr>status_code = 200, resp_text = ''<html><body>protected player</body></html>''\<rparr> = None"
    by (simp add: example_env_def)
  from download_course_fetch_failure
         [of example_env example_self "''https://down.example/''"
             "RequestException ''connection refused''" empty_world] a
  have 1: "download_course example_env example_self ''https://down.example/'' empty_world =
     (Inl (RequestException ''connection refused''),
      \<lparr>log = [Log INFO ''Fetching course page: %s'' [Str ''https://down.example/''] None],
       made_dirs = [], downloads = []\<rparr>)"
    by (simp add: empty_world_def)
  from download_course_fetch_failure
         [of example_env example_self "''https://web.careerwill.com/course/404''"
             "HTTPError 404" empty_world] b
  have 2: "download_course example_env example_self ''https://web.careerwill.com/course/404'' empty_world =
     (Inl (HTTPError 404),
      \<lparr>log = [Log INFO ''Fetching course page: %s'' [Str ''https://web.careerwill.com/course/404''] None],
       made_dirs = [], downloads = []\<rparr>)"
    by (simp add: empty_world_def)
  from download_course_fetch_failure
         [of example_env example_self "''https://web.careerwill.com/course/7''"
             "HTTPError 0" empty_world] c
  have 3: "fetch_course_page example_env example_self ''https://web.careerwill.com/course/7''
     = Inr ''<html><body>protected player</body></html>''"
    by simp
  from 1 2 3 c show ?thesis by blast
qed

text \<open>
  C6, as the claim states it, fails. A response that is not a 2xx and on which
  \<^verbatim>\<open>raise_for_status\<close> does not raise is not an error: with a \<^verbatim>\<open>raise_for_status\<close> that
  raises for the statuses from 400 to 599, as that of the HTTP library does, a 304 answer
  is processed as a page and the manifest on it is downloaded.
\<close>

theorem download_course_status_counterexample:
  \<open>download_course
     (example_env\<lparr>session_get :=
        (\<lambda>s url. Inr \<lparr>status_code = 304,
                        resp_text = ''<video src="https://cdn.example.com/1.m3u8"></video>''\<rparr>)\<rparr>)
     example_self ''https://web.careerwill.com/course/9'' empty_world =
   (Inr (),
    \<lparr>log = [Log INFO ''Fetching course page: %s'' [Str ''https://web.careerwill.com/course/9''] None,
            Log INFO ''Found %d manifest(s)'' [Num 1] None,
            Log INFO ''Downloading manifest: %s'' [Str ''https://cdn.example.com/1.m3u8''] None],
     made_dirs = [''out/manifest_1''],
     downloads = [(''out/manifest_1/%(title)s.%(ext)s'', ''https://cdn.example.com/1.m3u8'')]\<rparr>)\<close>
proof -
  let ?page = \<open>''<video src="https://cdn.example.com/1.m3u8"></video>''\<close>
  let ?env = "example_env\<lparr>session_get :=
        (\<lambda>s url. Inr \<lparr>status_code = 304, resp_text = ?page\<rparr>)\<rparr>"
  let ?url = "''https://web.careerwill.com/course/9''"
  have f: "fetch_course_page ?env example_self ?url = Inr ?page"
    by (simp add: fetch_course_page_def get_checked_def example_env_def)
  have d: "discover_manifest_urls (url_join ?env) (soup_scripts ?env) ?page ?url
      = Inr [''https://cdn.example.com/1.m3u8'']"
    by (simp add: discover_is_candidates manifest_candidates_def example_env_def
        set_add_def match_at_def scheme_len_def ext_len_def query_part_def dq_def sq_def)
  from f d example_subdirs_Suc show ?thesis
    by (simp add: download_course_def Let_def download_manifest_with_ytdlp_def
        logger_info_def logger_exception_def path_join_def startswith_def
        example_env_def empty_world_def)
qed

text \<open>
  C8. When the fetched course page yields no manifest, \<^verbatim>\<open>download_course\<close> logs the count
  and a warning and returns normally: it raises nothing, makes no directory and hands
  nothing to the download tool.
\<close>

theorem download_course_no_manifests:
  assumes "fetch_course_page env self course_url = Inr html"
    and "discover_manifest_urls (url_join env) (soup_scripts env) html course_url = Inr []"
  shows "download_course env self course_url w =
           (Inr (), w\<lparr>log := log w @
              [Log INFO ''Fetching course page: %s'' [Str course_url] None,
               Log INFO ''Found %d manifest(s)'' [Num 0] None,
               Log WARNING ''No manifest URLs found in page. The site may use an API or DRM-protected packaging.'' [] None]\<rparr>) \<and>
         downloads (snd (download_course env self course_url w)) = downloads w \<and>
         made_dirs (snd (download_course env self course_url w)) = made_dirs w"
proof -
  from assms have "download_course env self course_url w =
           (Inr (), w\<lparr>log := log w @
              [Log INFO ''Fetching course page: %s'' [Str course_url] None,
               Log INFO ''Found %d manifest(s)'' [Num 0] None,
               Log WARNING ''No manifest URLs found in page. The site may use an API or DRM-protected packaging.'' [] None]\<rparr>)"
    by (simp add: download_course_def logger_info_def logger_warning_def)
  then show ?thesis by simp
qed

theorem download_course_no_manifests_witness:
  "fetch_course_page example_env example_self ''https://web.careerwill.com/course/7''
     = Inr ''<html><body>protected player</body></html>'' \<and>
   discover_manifest_urls (url_join example_env) (soup_scripts example_env)
     ''<html><body>protected player</body></html>'' ''https://web.careerwill.com/course/7'' = Inr [] \<and>
   download_course example_env example_self ''https://web.careerwill.com/course/7'' empty_world =
     (Inr (),
      \<lparr>log = [Log INFO ''Fetching course page: %s'' [Str ''https://web.careerwill.com/course/7''] None,
              Log INFO ''Found %d manifest(s)'' [Num 0] None,
              Log WARNING ''No manifest URLs found in page. The site may use an API or DRM-protected packaging.'' [] None],
       made_dirs = [], downloads = []\<rparr>)"
proof -
  have f: "fetch_course_page example_env example_self ''https://web.careerwill.com/course/7''
     = Inr ''<html><body>protected player</body></html>''"
    by (simp add: fetch_course_page_def get_checked_def example_env_def)
  have d: "discover_manifest_urls (url_join example_env) (soup_scripts example_env)
     ''<html><body>protected player</body></html>'' ''https://web.careerwill.com/course/7'' = Inr []"
    by (simp add: discover_is_candidates manifest_candidates_def example_env_def
        match_at_def scheme_len_def)
  from download_course_no_manifests [OF f d, of empty_world] f d
  show ?thesis by (simp add: empty_world_def)
qed

section \<open>Properties of the course-link discoverer\<close>

lemma split_on_takeWhile:
  "split_on sep s \<noteq> [] \<and> hd (split_on sep s) = takeWhile (\<lambda>c. c \<noteq> sep) s"
  by (induction s) (auto split: list.splits)

lemma strip_query_takeWhile: "strip_query href = takeWhile (\<lambda>c. c \<noteq> CHR ''?'') href"
  using split_on_takeWhile [of "CHR ''?''" href]
  by (cases "split_on (CHR ''?'') href") (simp_all add: strip_query_def)

lemma strip_query_no_query: "CHR ''?'' \<notin> set (strip_query href)"
  using set_takeWhileD [of "CHR ''?''" "\<lambda>c. c \<noteq> CHR ''?''" href]
  by (auto simp: strip_query_takeWhile)

lemma strip_query_append: "CHR ''?'' \<notin> set p \<Longrightarrow> strip_query (p @ CHR ''?'' # q) = p"
  unfolding strip_query_takeWhile by (induction p) auto

lemma contains_sublist: "contains sub s \<longleftrightarrow> sublist sub s"
  by (induction s) (auto simp: sublist_Cons_right)

lemma contains_append: "contains sub p \<Longrightarrow> contains sub (p @ q)"
  by (auto simp: contains_sublist sublist_append)

lemma is_course_link_append: "is_course_link p \<Longrightarrow> is_course_link (p @ q)"
  by (auto simp: is_course_link_def contains_append)

lemma is_course_link_nonempty: "is_course_link p \<Longrightarrow> p \<noteq> []"
  by (auto simp: is_course_link_def)

lemma set_collect_link:
  "set (collect_link urljoin d h acc) = set acc \<union> strip_query ` qualifying urljoin d [h]"
  by (auto simp: collect_link_def Let_def set_set_add qualifying_def)

lemma qualifying_Cons:
  "qualifying urljoin d (h # hs) = qualifying urljoin d [h] \<union> qualifying urljoin d hs"
  by (auto simp: qualifying_def)

lemma set_fold_collect_link:
  "set (fold (collect_link urljoin d) hrefs acc) = set acc \<union> strip_query ` qualifying urljoin d hrefs"
proof (induction hrefs arbitrary: acc)
  case Nil
  then show ?case by (simp add: qualifying_def)
next
  case (Cons h hs)
  have "qualifying urljoin d (h # hs) = qualifying urljoin d [h] \<union> qualifying urljoin d hs"
    by (rule qualifying_Cons)
  with Cons show ?case by (simp add: set_collect_link image_Un Un_assoc)
qed

lemma distinct_fold_collect_link:
  "distinct acc \<Longrightarrow> distinct (fold (collect_link urljoin d) hrefs acc)"
  by (induction hrefs arbitrary: acc) (auto simp: collect_link_def Let_def distinct_set_add)

lemma set_course_links:
  "set (course_links urljoin d hrefs) = strip_query ` qualifying urljoin d hrefs"
  by (simp add: course_links_def set_fold_collect_link)

lemma distinct_course_links: "distinct (course_links urljoin d hrefs)"
  by (simp add: course_links_def distinct_fold_collect_link)

lemma sorted_course_links: "sorted (course_links urljoin d hrefs)"
  by (simp add: course_links_def)

lemma course_links_order_free:
  assumes "set hrefs = set hrefs'"
  shows "course_links urljoin d hrefs = course_links urljoin d hrefs'"
proof -
  have "set (course_links urljoin d hrefs) = set (course_links urljoin d hrefs')"
    using assms by (simp add: set_course_links qualifying_def)
  then show ?thesis
    using sorted_distinct_set_unique [OF sorted_course_links distinct_course_links
        sorted_course_links distinct_course_links]
    by blast
qed

lemma course_links_pair:
  assumes "is_course_link (resolve_href urljoin d h1)"
    and "is_course_link (resolve_href urljoin d h2)"
    and "strip_query (resolve_href urljoin d h1) = strip_query (resolve_href urljoin d h2)"
  shows "course_links urljoin d [h1, h2] = [strip_query (resolve_href urljoin d h1)]"
  using assms by (simp add: course_links_def collect_link_def Let_def set_add_def)

lemma resolve_href_absolute: "\<not> startswith h ''/'' \<Longrightarrow> resolve_href urljoin d h = h"
  by (simp add: resolve_href_def)

lemma startswith_append: "p \<noteq> [] \<Longrightarrow> startswith (p @ q) ''/'' = startswith p ''/''"
  by (cases p) (simp_all add: startswith_def)

lemma course_links_query_variants:
  assumes "CHR ''?'' \<notin> set p" and "\<not> startswith p ''/''" and "is_course_link p"
  shows "course_links urljoin d [p @ CHR ''?'' # q1, p @ CHR ''?'' # q2] = [p]"
proof -
  have ne: "p \<noteq> []" using assms(3) by (rule is_course_link_nonempty)
  have r: "resolve_href urljoin d (p @ CHR ''?'' # q) = p @ CHR ''?'' # q" for q
    using assms(2) ne by (simp add: resolve_href_absolute startswith_append)
  have c: "is_course_link (p @ CHR ''?'' # q)" for q
    using assms(3) by (rule is_course_link_append)
  have s: "strip_query (p @ CHR ''?'' # q) = p" for q
    using assms(1) by (rule strip_query_append)
  show ?thesis
    using course_links_pair [of urljoin d "p @ CHR ''?'' # q1" "p @ CHR ''?'' # q2"]
    by (simp add: r c s)
qed

lemma fst_get_enrolled_courses:
  "fst (get_enrolled_courses env self dashboard_url w) =
     (case get_checked env self (case dashboard_url of None \<Rightarrow> ''https://web.careerwill.com/'' | Some u \<Rightarrow> u) of
        Inl e \<Rightarrow> []
      | Inr resp \<Rightarrow>
          course_links (url_join env)
            (case dashboard_url of None \<Rightarrow> ''https://web.careerwill.com/'' | Some u \<Rightarrow> u)
            (soup_links env (resp_text resp)))"
  by (simp add: get_enrolled_courses_def Let_def split: sum.splits)

text \<open>The example dashboard yields two courses.\<close>

lemma example_courses:
  "fst (get_enrolled_courses example_env example_self None empty_world) =
     [''https://web.careerwill.com/course/12'', ''https://web.careerwill.com/learn/intro'']"
  by (simp add: get_enrolled_courses_def get_checked_def example_env_def course_links_def
      collect_link_def resolve_href_def is_course_link_def strip_query_def set_add_def
      startswith_def Let_def)

text \<open>
  C2, as the code has it. When the dashboard is fetched, the elements of the list that
  \<^verbatim>\<open>get_enrolled_courses\<close> returns are exactly the links of the page, each one joined to
  the dashboard URL when it starts with \<^verbatim>\<open>/\<close> and taken as written otherwise, that
  contain \<^verbatim>\<open>/course/\<close> or \<^verbatim>\<open>/learn/\<close> anywhere in the string, the query string included,
  each cut at its first \<^verbatim>\<open>?\<close>. No element holds a query string.
\<close>

theorem get_enrolled_courses_elements:
  assumes "url = (case dashboard_url of None \<Rightarrow> ''https://web.careerwill.com/'' | Some u \<Rightarrow> u)"
    and "get_checked env self url = Inr resp"
  shows "set (fst (get_enrolled_courses env self dashboard_url w)) =
           strip_query `
             {h' \<in> resolve_href (url_join env) url ` set (soup_links env (resp_text resp)).
                contains ''/course/'' h' \<or> contains ''/learn/'' h'} \<and>
         (\<forall>u \<in> set (fst (get_enrolled_courses env self dashboard_url w)). CHR ''?'' \<notin> set u)"
proof -
  have r: "fst (get_enrolled_courses env self dashboard_url w) =
      course_links (url_join env) url (soup_links env (resp_text resp))"
    using assms by (simp add: fst_get_enrolled_courses)
  have "set (course_links (url_join env) url (soup_links env (resp_text resp))) =
      strip_query `
             {h' \<in> resolve_href (url_join env) url ` set (soup_links env (resp_text resp)).
                contains ''/course/'' h' \<or> contains ''/learn/'' h'}"
    by (simp add: set_course_links qualifying_def is_course_link_def)
  moreover have "\<forall>u \<in> set (course_links (url_join env) url (soup_links env (resp_text resp))).
      CHR ''?'' \<notin> set u"
    using strip_query_no_query by (auto simp: set_course_links)
  ultimately show ?thesis using r by simp
qed

theorem get_enrolled_courses_elements_witness:
  "get_checked example_env example_self ''https://web.careerwill.com/''
     = Inr \<lparr>status_code = 200, resp_text = example_dashboard\<rparr> \<and>
   fst (get_enrolled_courses example_env example_self None empty_world) =
     [''https://web.careerwill.com/course/12'', ''https://web.careerwill.com/learn/intro''] \<and>
   {''https://web.careerwill.com/course/12'', ''https://web.careerwill.com/learn/intro''} =
     strip_query `
       {h' \<in> resolve_href (url_join example_env) ''https://web.careerwill.com/'' `
               set (soup_links example_env example_dashboard).
          contains ''/course/'' h' \<or> contains ''/learn/'' h'} \<and>
   CHR ''?'' \<notin> set ''https://web.careerwill.com/course/12'' \<and>
   CHR ''?'' \<notin> set ''https://web.careerwill.com/learn/intro''"
proof -
  have g: "get_checked example_env example_self ''https://web.careerwill.com/''
     = Inr \<lparr>status_code = 200, resp_text = example_dashboard\<rparr>"
    by (simp add: get_checked_def example_env_def)
  from get_enrolled_courses_elements
         [of "''https://web.careerwill.com/''" None example_env example_self
             "\<lparr>status_code = 200, resp_text = example_dashboard\<rparr>" empty_world, OF _ g]
  have t: "set (fst (get_enrolled_courses example_env example_self None empty_world)) =
           strip_query `
             {h' \<in> resolve_href (url_join example_env) ''https://web.careerwill.com/'' `
                     set (soup_links example_env example_dashboard).
                contains ''/course/'' h' \<or> contains ''/learn/'' h'} \<and>
         (\<forall>u \<in> set (fst (get_enrolled_courses example_env example_self None empty_world)).
            CHR ''?'' \<notin> set u)"
    by simp
  with g example_courses show ?thesis by simp
qed

text \<open>
  C2, as the claim states it, fails. A link whose query string alone holds
  \<^verbatim>\<open>/course/\<close> qualifies, and what is stored, the link without its query string,
  contains neither segment; a relative link that does not start with \<^verbatim>\<open>/\<close> is stored as
  written, and is not an absolute URL.
\<close>

theorem get_enrolled_courses_query_counterexample:
  "fst (get_enrolled_courses
          (example_env\<lparr>soup_links :=
             (\<lambda>html. [''https://web.careerwill.com/home?next=/course/5'', ''static/learn/3''])\<rparr>)
          example_self None empty_world)
     = [''https://web.careerwill.com/home'', ''static/learn/3''] \<and>
   \<not> contains ''/course/'' ''https://web.careerwill.com/home'' \<and>
   \<not> contains ''/learn/'' ''https://web.careerwill.com/home'' \<and>
   \<not> startswith ''static/learn/3'' ''http://'' \<and>
   \<not> startswith ''static/learn/3'' ''https://''"
  by (simp add: get_enrolled_courses_def get_checked_def example_env_def course_links_def
      collect_link_def resolve_href_def is_course_link_def strip_query_def set_add_def
      startswith_def Let_def)

text \<open>
  C4. The list that \<^verbatim>\<open>get_enrolled_courses\<close> returns is sorted, in the order of Python's
  string comparison (code point by code point, a proper prefix first), has no duplicates
  and no element with a query string. The list depends on the set of links of the page
  only, not on their order or number. Two links that qualify and are equal up to their
  query strings leave exactly one entry.
\<close>

theorem get_enrolled_courses_sorted_unique:
  "sorted (fst (get_enrolled_courses env self dashboard_url w)) \<and>
   distinct (fst (get_enrolled_courses env self dashboard_url w)) \<and>
   (\<forall>u \<in> set (fst (get_enrolled_courses env self dashboard_url w)). CHR ''?'' \<notin> set u) \<and>
   (set hrefs = set hrefs' \<longrightarrow> course_links urljoin d hrefs = course_links urljoin d hrefs') \<and>
   (is_course_link (resolve_href urljoin d h1) \<and> is_course_link (resolve_href urljoin d h2) \<and>
    strip_query (resolve_href urljoin d h1) = strip_query (resolve_href urljoin d h2) \<longrightarrow>
      course_links urljoin d [h1, h2] = [strip_query (resolve_href urljoin d h1)]) \<and>
   (CHR ''?'' \<notin> set p \<and> \<not> startswith p ''/'' \<and> is_course_link p \<longrightarrow>
      course_links urljoin d [p @ CHR ''?'' # q1, p @ CHR ''?'' # q2] = [p])"
proof -
  let ?r = "fst (get_enrolled_courses env self dashboard_url w)"
  have "?r = [] \<or> (\<exists>u hs. ?r = course_links (url_join env) u hs)"
    by (auto simp: fst_get_enrolled_courses split: sum.splits)
  then have a: "sorted ?r \<and> distinct ?r \<and> (\<forall>u \<in> set ?r. CHR ''?'' \<notin> set u)"
  proof
    assume "?r = []"
    then show ?thesis by simp
  next
    assume "\<exists>u hs. ?r = course_links (url_join env) u hs"
    then obtain u hs where r: "?r = course_links (url_join env) u hs" by blast
    have "\<forall>x \<in> set (course_links (url_join env) u hs). CHR ''?'' \<notin> set x"
      using strip_query_no_query by (auto simp: set_course_links)
    with r show ?thesis by (simp add: sorted_course_links distinct_course_links)
  qed
  have b: "set hrefs = set hrefs' \<longrightarrow> course_links urljoin d hrefs = course_links urljoin d hrefs'"
    using course_links_order_free by blast
  have c: "is_course_link (resolve_href urljoin d h1) \<and> is_course_link (resolve_href urljoin d h2) \<and>
    strip_query (resolve_href urljoin d h1) = strip_query (resolve_href urljoin d h2) \<longrightarrow>
      course_links urljoin d [h1, h2] = [strip_query (resolve_href urljoin d h1)]"
    using course_links_pair by blast
  have e: "CHR ''?'' \<notin> set p \<and> \<not> startswith p ''/'' \<and> is_course_link p \<longrightarrow>
      course_links urljoin d [p @ CHR ''?'' # q1, p @ CHR ''?'' # q2] = [p]"
    using course_links_query_variants by blast
  from a b c e show ?thesis by blast
qed

theorem get_enrolled_courses_sorted_unique_witness:
  "fst (get_enrolled_courses example_env example_self None empty_world) =
     [''https://web.careerwill.com/course/12'', ''https://web.careerwill.com/learn/intro''] \<and>
   sorted [''https://web.careerwill.com/course/12'', ''https://web.careerwill.com/learn/intro''] \<and>
   distinct [''https://web.careerwill.com/course/12'', ''https://web.careerwill.com/learn/intro''] \<and>
   CHR ''?'' \<notin> set ''https://web.careerwill.com/course/12'' \<and>
   CHR ''?'' \<notin> set ''https://web.careerwill.com/learn/intro'' \<and>
   course_links (url_join example_env) ''https://web.careerwill.com/''
       [''/course/12'', ''/learn/intro?x=1'', ''/course/12''] =
     course_links (url_join example_env) ''https://web.careerwill.com/''
       [''/learn/intro?x=1'', ''/course/12''] \<and>
   course_links (url_join example_env) ''https://web.careerwill.com/''
       [''/course/12?ref=home'', ''/course/12?tab=2''] = [''https://web.careerwill.com/course/12''] \<and>
   course_links (url_join example_env) ''https://web.careerwill.com/''
       [''https://web.careerwill.com/course/12?ref=home'',
        ''https://web.careerwill.com/course/12?tab=2''] = [''https://web.careerwill.com/course/12'']"
proof -
  let ?uj = "url_join example_env"
  let ?d = "''https://web.careerwill.com/''"
  let ?p = "''https://web.careerwill.com/course/12''"
  note t = get_enrolled_courses_sorted_unique
    [of example_env example_self None empty_world
        "[''/course/12'', ''/learn/intro?x=1'', ''/course/12'']"
        "[''/learn/intro?x=1'', ''/course/12'']" ?uj ?d
        "''/course/12?ref=home''" "''/course/12?tab=2''" ?p "''ref=home''" "''tab=2''"]
  have s: "set [''/course/12'', ''/learn/intro?x=1'', ''/course/12'']
      = set [''/learn/intro?x=1'', ''/course/12'']"
    by auto
  have r1: "resolve_href ?uj ?d ''/course/12?ref=home'' = ''https://web.careerwill.com/course/12?ref=home''"
    and r2: "resolve_href ?uj ?d ''/course/12?tab=2'' = ''https://web.careerwill.com/course/12?tab=2''"
    by (simp_all add: resolve_href_def startswith_def example_env_def)
  have q: "is_course_link ''https://web.careerwill.com/course/12?ref=home'' \<and>
      is_course_link ''https://web.careerwill.com/course/12?tab=2'' \<and>
      strip_query ''https://web.careerwill.com/course/12?ref=home''
        = ''https://web.careerwill.com/course/12'' \<and>
      strip_query ''https://web.careerwill.com/course/12?tab=2''
        = ''https://web.careerwill.com/course/12''"
    by (simp add: is_course_link_def strip_query_def)
  have p: "CHR ''?'' \<notin> set ?p \<and> \<not> startswith ?p ''/'' \<and> is_course_link ?p"
    by (simp add: is_course_link_def startswith_def)
  from t s have a: "course_links ?uj ?d [''/course/12'', ''/learn/intro?x=1'', ''/course/12''] =
     course_links ?uj ?d [''/learn/intro?x=1'', ''/course/12'']"
    by blast
  from t r1 r2 q have b: "course_links ?uj ?d [''/course/12?ref=home'', ''/course/12?tab=2''] = [?p]"
    by simp
  from t p have "course_links ?uj ?d [?p @ CHR ''?'' # ''ref=home'', ?p @ CHR ''?'' # ''tab=2''] = [?p]"
    by blast
  then have c: "course_links ?uj ?d [''https://web.careerwill.com/course/12?ref=home'',
        ''https://web.careerwill.com/course/12?tab=2''] = [?p]"
    by simp
  from t have "sorted (fst (get_enrolled_courses example_env example_self None empty_world)) \<and>
      distinct (fst (get_enrolled_courses example_env example_self None empty_world)) \<and>
      (\<forall>u \<in> set (fst (get_enrolled_courses example_env example_self None empty_world)).
         CHR ''?'' \<notin> set u)"
    by blast
  with example_courses have e: "sorted [?p, ''https://web.careerwill.com/learn/intro''] \<and>
      distinct [?p, ''https://web.careerwill.com/learn/intro''] \<and>
      CHR ''?'' \<notin> set ?p \<and> CHR ''?'' \<notin> set ''https://web.careerwill.com/learn/intro''"
    by simp
  from example_courses a b c e show ?thesis by blast
qed



section \<open>Properties of the session authenticator\<close>

text \<open>The fields of a line: one more than it has separators, and none holds a separator.\<close>

lemma length_split_on: "length (split_on sep s) = Suc (length (filter (\<lambda>c. c = sep) s))"
  by (induction s) (auto split: list.splits)

lemma split_on_no_sep: "p \<in> set (split_on sep s) \<Longrightarrow> sep \<notin> set p"
  by (induction s arbitrary: p) (auto split: list.splits if_splits)

text \<open>
  The constructor reads the cookie file only when no bearer token is given; the session
  it builds is the loop body run over the lines of the file.
\<close>

lemma init_reads_cookie_file:
  assumes "truthy bearer_token = None" and "truthy cookies_file = Some f"
    and "path_exists env f" and "read_text env f = Inr raw"
    and "out = (case truthy output_dir_arg of
                  None \<Rightarrow> path_join (getcwd env) ''careerwill_out'' | Some d \<Rightarrow> d)"
    and "makedirs env out = None"
  shows "init env bearer_token cookies_file output_dir_arg w =
           (Inr \<lparr>session = fold load_cookie_line (splitlines raw) \<lparr>headers = [], cookies = []\<rparr>,
                 output_dir = out\<rparr>,
            w\<lparr>made_dirs := made_dirs w @ [out]\<rparr>)"
  using assms by (simp add: init_def Let_def)

lemma init_unreadable_cookie_file:
  assumes "truthy bearer_token = None" and "truthy cookies_file = Some f"
    and "path_exists env f" and "read_text env f = Inl e"
    and "out = (case truthy output_dir_arg of
                  None \<Rightarrow> path_join (getcwd env) ''careerwill_out'' | Some d \<Rightarrow> d)"
    and "makedirs env out = None"
  shows "init env bearer_token cookies_file output_dir_arg w =
           (Inr \<lparr>session = \<lparr>headers = [], cookies = []\<rparr>, output_dir = out\<rparr>,
            logger_exception ''Failed to load cookies file'' [] e
              (w\<lparr>made_dirs := made_dirs w @ [out]\<rparr>))"
  using assms by (simp add: init_def Let_def)

lemma init_bearer_token:
  assumes "truthy bearer_token = Some t"
    and "out = (case truthy output_dir_arg of
                  None \<Rightarrow> path_join (getcwd env) ''careerwill_out'' | Some d \<Rightarrow> d)"
    and "makedirs env out = None"
  shows "init env bearer_token cookies_file output_dir_arg w =
           (Inr \<lparr>session = \<lparr>headers = [(''Authorization'', ''Bearer '' @ t)], cookies = []\<rparr>,
                 output_dir = out\<rparr>,
            w\<lparr>made_dirs := made_dirs w @ [out]\<rparr>)"
  using assms by (simp add: init_def Let_def)

text \<open>Each line adds its own cookies, whatever the lines before it added.\<close>

lemma load_cookie_line_cookies:
  "cookies (load_cookie_line line s) =
     cookies s @ cookies (load_cookie_line line \<lparr>headers = [], cookies = []\<rparr>)"
  by (simp add: load_cookie_line_def cookies_set_def Let_def)

lemma fold_load_cookie_line_cookies:
  "cookies (fold load_cookie_line ls s) =
     cookies s @ concat (map (\<lambda>l. cookies (load_cookie_line l \<lparr>headers = [], cookies = []\<rparr>)) ls)"
proof (induction ls arbitrary: s)
  case Nil
  then show ?case by simp
next
  case (Cons l ls)
  have "cookies (fold load_cookie_line (l # ls) s) =
      cookies (load_cookie_line l s) @
      concat (map (\<lambda>l. cookies (load_cookie_line l \<lparr>headers = [], cookies = []\<rparr>)) ls)"
    using Cons.IH [of "load_cookie_line l s"] by simp
  also have "cookies (load_cookie_line l s) =
      cookies s @ cookies (load_cookie_line l \<lparr>headers = [], cookies = []\<rparr>)"
    by (rule load_cookie_line_cookies)
  finally show ?case by simp
qed

text \<open>A file with a comment, a blank line, a cookie and a line that is too short.\<close>

lemma example_cookie_file:
  "cookies (fold load_cookie_line
     (splitlines ''# Netscape HTTP Cookie File\<newline>\<newline>.example.com	TRUE	/	FALSE	0	sid	abc123\<newline>.example.com	TRUE	/	FALSE	0	broken\<newline>'')
     \<lparr>headers = [], cookies = []\<rparr>)
   = [\<lparr>cookie_domain = ''.example.com'', cookie_name = ''sid'', cookie_value = ''abc123''\<rparr>]"
  by (simp add: splitlines_def is_linebreak_def load_cookie_line_def cookies_set_def
      startswith_def strip_def isspace_def Let_def)

text \<open>What the loop body does to the session, line by line.\<close>

lemma load_cookie_line_fields:
  "(startswith line ''#'' \<or> strip line = [] \<longrightarrow> load_cookie_line line s = s) \<and>
   (\<not> startswith line ''#'' \<and> strip line \<noteq> [] \<and> length (split_on (CHR 0x09) line) < 7 \<longrightarrow>
      load_cookie_line line s = s) \<and>
   (\<not> startswith line ''#'' \<and> strip line \<noteq> [] \<and> 7 \<le> length (split_on (CHR 0x09) line) \<longrightarrow>
      load_cookie_line line s =
        s\<lparr>cookies := cookies s @
          [\<lparr>cookie_domain = split_on (CHR 0x09) line ! 0,
            cookie_name = split_on (CHR 0x09) line ! 5,
            cookie_value = split_on (CHR 0x09) line ! 6\<rparr>]\<rparr>)"
  by (simp add: load_cookie_line_def cookies_set_def Let_def)

text \<open>The loop over the lines: the cookies of the lines that register one, in order.\<close>

lemma fold_load_cookie_line:
  "fold load_cookie_line ls s =
     s\<lparr>cookies := cookies s @
        map (\<lambda>line. \<lparr>cookie_domain = split_on (CHR 0x09) line ! 0,
                      cookie_name = split_on (CHR 0x09) line ! 5,
                      cookie_value = split_on (CHR 0x09) line ! 6\<rparr>)
          (filter (\<lambda>line. \<not> startswith line ''#'' \<and> strip line \<noteq> [] \<and>
                           7 \<le> length (split_on (CHR 0x09) line)) ls)\<rparr>"
  by (induction ls arbitrary: s) (simp_all add: load_cookie_line_def cookies_set_def Let_def)

text \<open>
  C7. When the constructor parses the cookie file (no bearer token is given, the file
  exists and can be read), the cookies it registers are those of the lines of the file,
  in order, that do not start with \<^verbatim>\<open>#\<close>, are not blank and have 7 tab-separated fields
  or more: one cookie for each such line, with field 5 as its name, field 6 as its value
  and field 0 as its domain. A line that starts with \<^verbatim>\<open>#\<close>, a blank line and a line with
  fewer than 7 fields register nothing. No header is set.
\<close>

theorem init_registers_cookies:
  assumes "truthy bearer_token = None" and "truthy cookies_file = Some f"
    and "path_exists env f" and "read_text env f = Inr raw"
    and "out = (case truthy output_dir_arg of
                  None \<Rightarrow> path_join (getcwd env) ''careerwill_out'' | Some d \<Rightarrow> d)"
    and "makedirs env out = None"
  shows "fst (init env bearer_token cookies_file output_dir_arg w) =
           Inr \<lparr>session =
                 \<lparr>headers = [],
                  cookies =
                    map (\<lambda>line. \<lparr>cookie_domain = split_on (CHR 0x09) line ! 0,
                                  cookie_name = split_on (CHR 0x09) line ! 5,
                                  cookie_value = split_on (CHR 0x09) line ! 6\<rparr>)
                      (filter (\<lambda>line. \<not> startswith line ''#'' \<and> strip line \<noteq> [] \<and>
                                       7 \<le> length (split_on (CHR 0x09) line))
                         (splitlines raw))\<rparr>,
                output_dir = out\<rparr>"
proof -
  have "fst (init env bearer_token cookies_file output_dir_arg w) =
      Inr \<lparr>session = fold load_cookie_line (splitlines raw) \<lparr>headers = [], cookies = []\<rparr>,
            output_dir = out\<rparr>"
    using init_reads_cookie_file [OF assms, of w] by simp
  then show ?thesis by (simp add: fold_load_cookie_line)
qed

theorem init_registers_cookies_witness:
  "splitlines ''# Netscape HTTP Cookie File\<newline>\<newline>.example.com	TRUE	/	FALSE	0	sid	abc123\<newline>.example.com	TRUE	/	FALSE	0	broken\<newline>.careerwill.com	TRUE	/	TRUE	1799999999	token	xyz	extra\<newline>'' =
     [''# Netscape HTTP Cookie File'', [],
      ''.example.com	TRUE	/	FALSE	0	sid	abc123'',
      ''.example.com	TRUE	/	FALSE	0	broken'',
      ''.careerwill.com	TRUE	/	TRUE	1799999999	token	xyz	extra''] \<and>
   length (split_on (CHR 0x09) ''.example.com	TRUE	/	FALSE	0	broken'') = 6 \<and>
   fst (init (example_env\<lparr>read_text := (\<lambda>p. Inr ''# Netscape HTTP Cookie File\<newline>\<newline>.example.com	TRUE	/	FALSE	0	sid	abc123\<newline>.example.com	TRUE	/	FALSE	0	broken\<newline>.careerwill.com	TRUE	/	TRUE	1799999999	token	xyz	extra\<newline>'')\<rparr>)
          None (Some ''cookies.txt'') None empty_world) =
     Inr \<lparr>session =
           \<lparr>headers = [],
            cookies =
              [\<lparr>cookie_domain = ''.example.com'', cookie_name = ''sid'', cookie_value = ''abc123''\<rparr>,
               \<lparr>cookie_domain = ''.careerwill.com'', cookie_name = ''token'', cookie_value = ''xyz''\<rparr>]\<rparr>,
          output_dir = ''/home/user/careerwill_out''\<rparr>"
proof -
  let ?env = "example_env\<lparr>read_text := (\<lambda>p. Inr ''# Netscape HTTP Cookie File\<newline>\<newline>.example.com	TRUE	/	FALSE	0	sid	abc123\<newline>.example.com	TRUE	/	FALSE	0	broken\<newline>.careerwill.com	TRUE	/	TRUE	1799999999	token	xyz	extra\<newline>'')\<rparr>"
  have l: "splitlines ''# Netscape HTTP Cookie File\<newline>\<newline>.example.com	TRUE	/	FALSE	0	sid	abc123\<newline>.example.com	TRUE	/	FALSE	0	broken\<newline>.careerwill.com	TRUE	/	TRUE	1799999999	token	xyz	extra\<newline>'' =
     [''# Netscape HTTP Cookie File'', [],
      ''.example.com	TRUE	/	FALSE	0	sid	abc123'',
      ''.example.com	TRUE	/	FALSE	0	broken'',
      ''.careerwill.com	TRUE	/	TRUE	1799999999	token	xyz	extra'']"
    by (simp add: splitlines_def is_linebreak_def)
  have n: "length (split_on (CHR 0x09) ''.example.com	TRUE	/	FALSE	0	broken'') = 6"
    by simp
  have b: "truthy None = None" and c: "truthy (Some ''cookies.txt'') = Some ''cookies.txt''"
    by (simp_all add: truthy_def)
  have e: "path_exists ?env ''cookies.txt''" by (simp add: example_env_def)
  have r: "read_text ?env ''cookies.txt'' = Inr ''# Netscape HTTP Cookie File\<newline>\<newline>.example.com	TRUE	/	FALSE	0	sid	abc123\<newline>.example.com	TRUE	/	FALSE	0	broken\<newline>.careerwill.com	TRUE	/	TRUE	1799999999	token	xyz	extra\<newline>''" by simp
  have o: "''/home/user/careerwill_out'' =
      (case truthy None of None \<Rightarrow> path_join (getcwd ?env) ''careerwill_out'' | Some d \<Rightarrow> d)"
    by (simp add: truthy_def path_join_def startswith_def example_env_def)
  have m: "makedirs ?env ''/home/user/careerwill_out'' = None" by (simp add: example_env_def)
  from init_registers_cookies [OF b c e r o m, of empty_world] l
  have "fst (init ?env None (Some ''cookies.txt'') None empty_world) =
     Inr \<lparr>session =
           \<lparr>headers = [],
            cookies =
              [\<lparr>cookie_domain = ''.example.com'', cookie_name = ''sid'', cookie_value = ''abc123''\<rparr>,
               \<lparr>cookie_domain = ''.careerwill.com'', cookie_name = ''token'', cookie_value = ''xyz''\<rparr>]\<rparr>,
          output_dir = ''/home/user/careerwill_out''\<rparr>"
    by (simp add: startswith_def strip_def isspace_def)
  with l n show ?thesis by blast
qed

end
